theory Spec2Isabelle
  imports Complex_Main
begin

section \<open>Risk thresholds and the Fine-Kinney classifier\<close>

text \<open>
  The TypeScript interface \<open>RiskThresholds\<close> holds four numbers. A JavaScript number is
  modelled as a real (finite values; the order comparisons below are the only operations
  the classifier applies to them).
\<close>

record RiskThresholds =
  intolerable :: real
  substantial :: real
  important :: real
  possible :: real

definition DEFAULT_THRESHOLDS :: RiskThresholds where
  "DEFAULT_THRESHOLDS =
     \<lparr>intolerable = 400, substantial = 200, important = 70, possible = 20\<rparr>"

text \<open>
  The labels and recommended actions are Turkish string literals in the source; each literal
  is one constructor here, spelled without diacritics:
  \<open>TOLERANS GOSTERILEMEZ\<close> (intolerable), \<open>ESASLI RISK\<close> (substantial),
  \<open>ONEMLI RISK\<close> (important), \<open>OLASI RISK\<close> (possible), \<open>ONEMSIZ RISK\<close> (negligible).
\<close>

datatype risk_label =
  TOLERANS_GOSTERILEMEZ | ESASLI_RISK | ONEMLI_RISK | OLASI_RISK | ONEMSIZ_RISK

datatype risk_action =
  Hemen_Durdur | Acil_Iyilestir | Kisa_Vadede_Coz | Gozetim_Altinda_Tut | Izlemeye_Devam

record risk_class =
  rc_label :: risk_label
  rc_color :: string
  rc_pdfColor :: "nat list"
  rc_action :: risk_action
  rc_hex :: string

definition getRiskClass :: "real \<Rightarrow> RiskThresholds \<Rightarrow> risk_class" where
  "getRiskClass score thresholds =
     (if score > intolerable thresholds then
        \<lparr>rc_label = TOLERANS_GOSTERILEMEZ, rc_color = ''bg-red-600 text-white'',
         rc_pdfColor = [255, 0, 0], rc_action = Hemen_Durdur, rc_hex = ''#dc2626''\<rparr>
      else if score > substantial thresholds then
        \<lparr>rc_label = ESASLI_RISK, rc_color = ''bg-orange-600 text-white'',
         rc_pdfColor = [255, 69, 0], rc_action = Acil_Iyilestir, rc_hex = ''#ea580c''\<rparr>
      else if score > important thresholds then
        \<lparr>rc_label = ONEMLI_RISK, rc_color = ''bg-orange-500 text-white'',
         rc_pdfColor = [255, 165, 0], rc_action = Kisa_Vadede_Coz, rc_hex = ''#f97316''\<rparr>
      else if score > possible thresholds then
        \<lparr>rc_label = OLASI_RISK, rc_color = ''bg-yellow-500 text-black'',
         rc_pdfColor = [255, 255, 0], rc_action = Gozetim_Altinda_Tut, rc_hex = ''#eab308''\<rparr>
      else
        \<lparr>rc_label = ONEMSIZ_RISK, rc_color = ''bg-green-600 text-white'',
         rc_pdfColor = [0, 128, 0], rc_action = Izlemeye_Devam, rc_hex = ''#16a34a''\<rparr>)"

text \<open>The severity order of the five tiers, least severe first.\<close>

fun severityRank :: "risk_label \<Rightarrow> nat" where
  "severityRank ONEMSIZ_RISK = 0"
| "severityRank OLASI_RISK = 1"
| "severityRank ONEMLI_RISK = 2"
| "severityRank ESASLI_RISK = 3"
| "severityRank TOLERANS_GOSTERILEMEZ = 4"

text \<open>Thresholds as the data model describes them: strictly descending.\<close>

definition strictlyDescending :: "RiskThresholds \<Rightarrow> bool" where
  "strictlyDescending t \<longleftrightarrow>
     intolerable t > substantial t \<and> substantial t > important t \<and> important t > possible t"

section \<open>The host: wall clock and local time zone\<close>

text \<open>
  \<open>calculateSLADate\<close>, \<open>calculateValidity\<close> and \<open>isOverdue\<close> evaluate \<open>new Date()\<close>
  in their bodies, and the \<open>Date\<close> methods they call work in the host's local time. Both
  are ambient in the source; here they are the two fields of the host. \<open>clock\<close> is the
  time value \<open>new Date()\<close> returns (milliseconds since the epoch, UTC); \<open>localTZA\<close> is
  the local time zone adjustment in milliseconds (a fixed offset: daylight-saving
  transitions are outside this model). The functions below take any extension of the
  record (\<open>'z host_scheme\<close>): whatever else the environment holds, they read these
  two fields only.
\<close>

record host =
  clock :: int
  localTZA :: int

section \<open>ECMAScript time values and the Date methods the source calls\<close>

text \<open>
  A \<open>Date\<close> object is its time value: \<open>Some t\<close>, or \<open>None\<close> for \<open>NaN\<close> (Invalid Date).
  The definitions follow the abstract operations of ECMA-262 (section "Date Objects").
\<close>

definition msPerDay :: int where
  "msPerDay = 86400000"

definition maxTime :: int where
  "maxTime = 8640000000000000"

definition TimeClip :: "int \<Rightarrow> int option" where
  "TimeClip t = (if \<bar>t\<bar> > maxTime then None else Some t)"

definition Day :: "int \<Rightarrow> int" where
  "Day t = t div msPerDay"

definition TimeWithinDay :: "int \<Rightarrow> int" where
  "TimeWithinDay t = t mod msPerDay"

definition DaysInYear :: "int \<Rightarrow> int" where
  "DaysInYear y =
     (if y mod 4 \<noteq> 0 then 365
      else if y mod 100 \<noteq> 0 then 366
      else if y mod 400 \<noteq> 0 then 365
      else 366)"

definition DayFromYear :: "int \<Rightarrow> int" where
  "DayFromYear y =
     365 * (y - 1970) + (y - 1969) div 4 - (y - 1901) div 100 + (y - 1601) div 400"

text \<open>
  ECMA-262 defines \<open>YearFromTime t\<close> as the largest \<open>y\<close> with \<open>TimeFromYear y \<le> t\<close>.
  The executable form estimates the year from the mean length of a Gregorian year and
  corrects the estimate by at most one; lemma \<open>YearFromDay_correct\<close> below shows that it
  is that largest year.
\<close>

definition YearFromDay :: "int \<Rightarrow> int" where
  "YearFromDay d =
     (let y = 1970 + (400 * d) div 146097
      in if d < DayFromYear y then y - 1
         else if DayFromYear (y + 1) \<le> d then y + 1
         else y)"

definition YearFromTime :: "int \<Rightarrow> int" where
  "YearFromTime t = YearFromDay (Day t)"

definition InLeapYear :: "int \<Rightarrow> int" where
  "InLeapYear t = (if DaysInYear (YearFromTime t) = 366 then 1 else 0)"

definition DayWithinYear :: "int \<Rightarrow> int" where
  "DayWithinYear t = Day t - DayFromYear (YearFromTime t)"

definition MonthFromTime :: "int \<Rightarrow> int" where
  "MonthFromTime t =
     (let d = DayWithinYear t; l = InLeapYear t
      in if d < 31 then 0
         else if d < 59 + l then 1
         else if d < 90 + l then 2
         else if d < 120 + l then 3
         else if d < 151 + l then 4
         else if d < 181 + l then 5
         else if d < 212 + l then 6
         else if d < 243 + l then 7
         else if d < 273 + l then 8
         else if d < 304 + l then 9
         else if d < 334 + l then 10
         else 11)"

definition DateFromTime :: "int \<Rightarrow> int" where
  "DateFromTime t =
     (let d = DayWithinYear t; l = InLeapYear t; m = MonthFromTime t
      in if m = 0 then d + 1
         else if m = 1 then d - 30
         else if m = 2 then d - 58 - l
         else if m = 3 then d - 89 - l
         else if m = 4 then d - 119 - l
         else if m = 5 then d - 150 - l
         else if m = 6 then d - 180 - l
         else if m = 7 then d - 211 - l
         else if m = 8 then d - 242 - l
         else if m = 9 then d - 272 - l
         else if m = 10 then d - 303 - l
         else d - 333 - l)"

text \<open>
  \<open>MakeDay year month date\<close>: the day number of the first day of month \<open>month mod 12\<close> of
  year \<open>year + month div 12\<close>, plus \<open>date - 1\<close>. A \<open>date\<close> beyond the end of the month
  runs on into the following months, as in ECMA-262.
\<close>

definition monthStart :: "int \<Rightarrow> int \<Rightarrow> int" where
  "monthStart mn l =
     (if mn = 0 then 0
      else if mn = 1 then 31
      else if mn = 2 then 59 + l
      else if mn = 3 then 90 + l
      else if mn = 4 then 120 + l
      else if mn = 5 then 151 + l
      else if mn = 6 then 181 + l
      else if mn = 7 then 212 + l
      else if mn = 8 then 243 + l
      else if mn = 9 then 273 + l
      else if mn = 10 then 304 + l
      else 334 + l)"

definition MakeDay :: "int \<Rightarrow> int \<Rightarrow> int \<Rightarrow> int" where
  "MakeDay year month date =
     (let ym = year + month div 12; mn = month mod 12;
          l = (if DaysInYear ym = 366 then 1 else 0)
      in DayFromYear ym + monthStart mn l + date - 1)"

definition MakeTime :: "int \<Rightarrow> int \<Rightarrow> int \<Rightarrow> int \<Rightarrow> int" where
  "MakeTime hour minute sec ms = hour * 3600000 + minute * 60000 + sec * 1000 + ms"

definition MakeDate :: "int \<Rightarrow> int \<Rightarrow> int" where
  "MakeDate day time = day * msPerDay + time"

definition LocalTime :: "'z host_scheme \<Rightarrow> int \<Rightarrow> int" where
  "LocalTime h t = t + localTZA h"

definition UTC :: "'z host_scheme \<Rightarrow> int \<Rightarrow> int" where
  "UTC h t = t - localTZA h"

text \<open>\<open>new Date()\<close>: the current time value.\<close>

definition Date_now :: "'z host_scheme \<Rightarrow> int option" where
  "Date_now h = TimeClip (clock h)"

definition Date_getFullYear :: "'z host_scheme \<Rightarrow> int option \<Rightarrow> int option" where
  "Date_getFullYear h tv = map_option (\<lambda>t. YearFromTime (LocalTime h t)) tv"

definition Date_getMonth :: "'z host_scheme \<Rightarrow> int option \<Rightarrow> int option" where
  "Date_getMonth h tv = map_option (\<lambda>t. MonthFromTime (LocalTime h t)) tv"

definition Date_getDate :: "'z host_scheme \<Rightarrow> int option \<Rightarrow> int option" where
  "Date_getDate h tv = map_option (\<lambda>t. DateFromTime (LocalTime h t)) tv"

definition Date_setDate :: "'z host_scheme \<Rightarrow> int option \<Rightarrow> int option \<Rightarrow> int option" where
  "Date_setDate h tv date =
     (case tv of
        None \<Rightarrow> None
      | Some t0 \<Rightarrow>
          (case date of
             None \<Rightarrow> None
           | Some dt \<Rightarrow>
               (let t = LocalTime h t0;
                    newDate = MakeDate (MakeDay (YearFromTime t) (MonthFromTime t) dt)
                                       (TimeWithinDay t)
                in TimeClip (UTC h newDate))))"

definition Date_setFullYear :: "'z host_scheme \<Rightarrow> int option \<Rightarrow> int option \<Rightarrow> int option" where
  "Date_setFullYear h tv year =
     (case year of
        None \<Rightarrow> None
      | Some y \<Rightarrow>
          (let t = (case tv of None \<Rightarrow> 0 | Some t0 \<Rightarrow> LocalTime h t0);
               newDate = MakeDate (MakeDay y (MonthFromTime t) (DateFromTime t))
                                  (TimeWithinDay t)
           in TimeClip (UTC h newDate)))"

definition Date_setHours ::
  "'z host_scheme \<Rightarrow> int option \<Rightarrow> int \<Rightarrow> int \<Rightarrow> int \<Rightarrow> int \<Rightarrow> int option" where
  "Date_setHours h tv hour minute sec ms =
     (case tv of
        None \<Rightarrow> None
      | Some t0 \<Rightarrow>
          (let t = LocalTime h t0;
               date = MakeDate (Day t) (MakeTime hour minute sec ms)
           in TimeClip (UTC h date)))"

text \<open>
  \<open>new Date(dateStr)\<close> on a string. The source stores dates as \<open>YYYY-MM-DD\<close>; ECMA-262
  reads that date-only form as midnight UTC. The month must be 01 to 12 and the day 01 to
  31 (a day beyond the month's end runs on through \<open>MakeDay\<close>, as V8 does). Every other
  string is taken to be an Invalid Date: what engines make of other formats is
  implementation-defined and outside this model.
\<close>

definition digitVal :: "char \<Rightarrow> int option" where
  "digitVal c =
     (let n = (of_char c :: nat)
      in if 48 \<le> n \<and> n \<le> 57 then Some (int n - 48) else None)"

fun digitsVal :: "char list \<Rightarrow> int option" where
  "digitsVal [] = Some 0"
| "digitsVal (c # cs) =
     (case digitVal c of
        None \<Rightarrow> None
      | Some v \<Rightarrow>
          (case digitsVal cs of
             None \<Rightarrow> None
           | Some r \<Rightarrow> Some (v * 10 ^ length cs + r)))"

definition parseYMD :: "string \<Rightarrow> (int \<times> int \<times> int) option" where
  "parseYMD s =
     (if length s = 10 \<and> s ! 4 = CHR ''-'' \<and> s ! 7 = CHR ''-'' then
        (case (digitsVal (take 4 s), digitsVal (take 2 (drop 5 s)), digitsVal (drop 8 s)) of
           (Some y, Some m, Some d) \<Rightarrow>
             (if 1 \<le> m \<and> m \<le> 12 \<and> 1 \<le> d \<and> d \<le> 31 then Some (y, m, d) else None)
         | _ \<Rightarrow> None)
      else None)"

definition Date_parse :: "string \<Rightarrow> int option" where
  "Date_parse s =
     (case parseYMD s of
        None \<Rightarrow> None
      | Some (y, m, d) \<Rightarrow> TimeClip (MakeDate (MakeDay y (m - 1) d) 0))"

text \<open>Number-to-string conversion of an integer-valued number, and \<open>padStart(2, '0')\<close>.\<close>

definition digitChar :: "nat \<Rightarrow> char" where
  "digitChar n = char_of (48 + n)"

fun natToString :: "nat \<Rightarrow> string" where
  "natToString n =
     (if n < 10 then [digitChar n] else natToString (n div 10) @ [digitChar (n mod 10)])"

declare natToString.simps [simp del]

definition Number_toString :: "int option \<Rightarrow> string" where
  "Number_toString x =
     (case x of
        None \<Rightarrow> ''NaN''
      | Some i \<Rightarrow> (if i < 0 then CHR ''-'' # natToString (nat (- i)) else natToString (nat i)))"

definition padStart2 :: "string \<Rightarrow> string" where
  "padStart2 s = replicate (2 - length s) (CHR ''0'') @ s"

text \<open>The comparison \<open><\<close> on numbers that may be \<open>NaN\<close>: false when either side is.\<close>

definition js_less :: "int option \<Rightarrow> int option \<Rightarrow> bool" where
  "js_less a b = (case (a, b) of (Some x, Some y) \<Rightarrow> x < y | _ \<Rightarrow> False)"

section \<open>SLA deadline\<close>

text \<open>
  \<open>calculateSLADate\<close> copies \<open>now\<close> into \<open>targetDate\<close>, moves it by
  \<open>setDate(now.getDate() + k)\<close> in every branch but the first, and prints the local
  year, month and day of \<open>targetDate\<close>.
\<close>

definition calculateSLADate :: "'z host_scheme \<Rightarrow> real \<Rightarrow> RiskThresholds \<Rightarrow> string" where
  "calculateSLADate h score thresholds =
     (let now = Date_now h;
          targetDate =
            (if score > intolerable thresholds then now
             else if score > substantial thresholds then
               Date_setDate h now (map_option (\<lambda>d. d + 30) (Date_getDate h now))
             else if score > important thresholds then
               Date_setDate h now (map_option (\<lambda>d. d + 60) (Date_getDate h now))
             else if score > possible thresholds then
               Date_setDate h now (map_option (\<lambda>d. d + 90) (Date_getDate h now))
             else
               Date_setDate h now (map_option (\<lambda>d. d + 180) (Date_getDate h now)));
          year = Number_toString (Date_getFullYear h targetDate);
          month = padStart2 (Number_toString
                    (map_option (\<lambda>m. m + 1) (Date_getMonth h targetDate)));
          day = padStart2 (Number_toString (Date_getDate h targetDate))
      in year @ ''-'' @ month @ ''-'' @ day)"

section \<open>Training and health-check validity\<close>

text \<open>
  \<open>HazardClass\<close> is the union of the literals \<open>Az Tehlikeli\<close> (low), \<open>Tehlikeli\<close>
  (hazardous) and \<open>Cok Tehlikeli\<close> (highly hazardous); the compliance type is
  \<open>training\<close> or \<open>health\<close>. The result's \<open>status\<close> is one of four literals and its
  label one of \<open>Veri Yok\<close>, \<open>Suresi Doldu\<close>, \<open>n Gun Kaldi\<close> (with \<open>n\<close> the printed
  day count), \<open>Gecerli\<close>.
\<close>

datatype HazardClass = Az_Tehlikeli | Tehlikeli | Cok_Tehlikeli

datatype compliance_type = training | health

datatype validity_status = missing | expired | warning | valid

datatype validity_label = Veri_Yok | Suresi_Doldu | Gun_Kaldi string | Gecerli

record validity =
  v_status :: validity_status
  v_label :: validity_label
  v_color :: string
  v_days :: "int option"

text \<open>
  \<open>Math.ceil(diffTime / (1000 * 60 * 60 * 24))\<close> on an integer number of milliseconds,
  \<open>NaN\<close> when \<open>diffTime\<close> is.
\<close>

definition ceilDays :: "int option \<Rightarrow> int option" where
  "ceilDays diffTime = map_option (\<lambda>x. - ((- x) div (1000 * 60 * 60 * 24))) diffTime"

definition js_minus :: "int option \<Rightarrow> int option \<Rightarrow> int option" where
  "js_minus a b = (case (a, b) of (Some x, Some y) \<Rightarrow> Some (x - y) | _ \<Rightarrow> None)"

definition calculateValidity ::
  "'z host_scheme \<Rightarrow> string \<Rightarrow> HazardClass \<Rightarrow> compliance_type \<Rightarrow> validity" where
  "calculateValidity h dateStr hazardClass type =
     (if dateStr = [] then
        \<lparr>v_status = missing, v_label = Veri_Yok, v_color = ''text-zinc-500 bg-zinc-800'',
         v_days = Some 0\<rparr>
      else
        (let date = Date_parse dateStr;
             now = Date_now h;
             yearsToAdd =
               (if type = training then
                  (if hazardClass = Cok_Tehlikeli then 1
                   else if hazardClass = Tehlikeli then 2
                   else 3)
                else
                  (if hazardClass = Cok_Tehlikeli then 1
                   else if hazardClass = Tehlikeli then 3
                   else 5));
             dueDate = Date_setFullYear h date
                         (map_option (\<lambda>y. y + yearsToAdd) (Date_getFullYear h date));
             diffTime = js_minus dueDate now;
             diffDays = ceilDays diffTime
         in if js_less diffDays (Some 0) then
              \<lparr>v_status = expired, v_label = Suresi_Doldu,
               v_color = ''text-red-500 bg-red-900/20'', v_days = diffDays\<rparr>
            else if js_less diffDays (Some 60) then
              \<lparr>v_status = warning, v_label = Gun_Kaldi (Number_toString diffDays),
               v_color = ''text-orange-500 bg-orange-900/20'', v_days = diffDays\<rparr>
            else
              \<lparr>v_status = valid, v_label = Gecerli,
               v_color = ''text-green-500 bg-green-900/20'', v_days = diffDays\<rparr>))"

section \<open>JavaScript values\<close>

text \<open>
  The analysis service's answer is the result of \<open>JSON.parse\<close> and is typed \<open>any\<close>: a
  field of it can hold any JSON value or be absent, and the source stores such fields
  without a check. A number is \<open>NaN\<close>, an infinity or a finite value (a real; the two
  zeros are one value here).
\<close>

datatype number = NaN | PosInf | NegInf | Fin real

datatype json =
  JNull | JBool bool | JNum number | JStr string | JArr "json list" | JObj "(string \<times> json) list"

text \<open>
  Two operations of the platform are parameters of the model. \<open>fmul x y\<close> is the product
  of two finite numbers as the engine computes it (IEEE 754 double multiplication, which
  rounds and can overflow to an infinity). \<open>StringToNumber s\<close> is the number the engine
  reads from a string. The theorems below hold for every such pair.
\<close>

record platform =
  fmul :: "real \<Rightarrow> real \<Rightarrow> number"
  StringToNumber :: "string \<Rightarrow> number"

text \<open>
  \<open>x * y\<close> on numbers (ECMA-262, Number::multiply): \<open>NaN\<close> if an operand is \<open>NaN\<close>;
  an infinity times zero is \<open>NaN\<close>; an infinity times anything else is an infinity with
  the sign of the product; finite operands are multiplied by the platform.
\<close>

definition isNegative :: "number \<Rightarrow> bool" where
  "isNegative a = (case a of NegInf \<Rightarrow> True | Fin x \<Rightarrow> x < 0 | _ \<Rightarrow> False)"

definition Number_multiply :: "platform \<Rightarrow> number \<Rightarrow> number \<Rightarrow> number" where
  "Number_multiply P a b =
     (case (a, b) of
        (NaN, _) \<Rightarrow> NaN
      | (_, NaN) \<Rightarrow> NaN
      | (Fin x, Fin y) \<Rightarrow> fmul P x y
      | _ \<Rightarrow>
          (if a = Fin 0 \<or> b = Fin 0 then NaN
           else if isNegative a = isNegative b then PosInf
           else NegInf))"

text \<open>
  \<open>ToNumber\<close>, which \<open>*\<close> applies to each operand. An object converts through its
  string \<open>[object Object]\<close> to \<open>NaN\<close>. An array converts through the strings of its
  elements joined by commas: the empty array gives the empty string, hence 0; an array of
  one element gives what that element's string reads as (nothing for \<open>null\<close>, the words
  \<open>true\<close> and \<open>false\<close> for a boolean); a longer array contains a comma and gives
  \<open>NaN\<close>.
\<close>

fun ToNumber :: "platform \<Rightarrow> json \<Rightarrow> number" where
  "ToNumber P JNull = Fin 0"
| "ToNumber P (JBool b) = (if b then Fin 1 else Fin 0)"
| "ToNumber P (JNum x) = x"
| "ToNumber P (JStr s) = StringToNumber P s"
| "ToNumber P (JObj fs) = NaN"
| "ToNumber P (JArr []) = Fin 0"
| "ToNumber P (JArr [JNull]) = Fin 0"
| "ToNumber P (JArr [JBool b]) = NaN"
| "ToNumber P (JArr [JNum x]) = x"
| "ToNumber P (JArr [JStr s]) = StringToNumber P s"
| "ToNumber P (JArr [JObj fs]) = NaN"
| "ToNumber P (JArr [JArr xs]) = ToNumber P (JArr xs)"
| "ToNumber P (JArr (x # y # zs)) = NaN"

text \<open>
  \<open>x || d\<close> on a field that may be absent: the default \<open>d\<close> when the field is absent or
  falsy (\<open>null\<close>, \<open>false\<close>, 0, \<open>NaN\<close>, the empty string), the field's value otherwise.
\<close>

definition truthy :: "json \<Rightarrow> bool" where
  "truthy v =
     (case v of
        JNull \<Rightarrow> False
      | JBool b \<Rightarrow> b
      | JNum x \<Rightarrow> x \<noteq> NaN \<and> x \<noteq> Fin 0
      | JStr s \<Rightarrow> s \<noteq> []
      | JArr xs \<Rightarrow> True
      | JObj fs \<Rightarrow> True)"

definition or_else :: "json option \<Rightarrow> json \<Rightarrow> json" where
  "or_else x d = (case x of None \<Rightarrow> d | Some v \<Rightarrow> if truthy v then v else d)"

text \<open>The strict equality \<open>===\<close> on numbers: \<open>NaN\<close> equals nothing, itself included.\<close>

definition Number_equal :: "number \<Rightarrow> number \<Rightarrow> bool" where
  "Number_equal a b = (a \<noteq> NaN \<and> b \<noteq> NaN \<and> a = b)"

section \<open>Overdue actions\<close>

definition isOverdue :: "'z host_scheme \<Rightarrow> string \<Rightarrow> bool" where
  "isOverdue h dateStr =
     (if dateStr = [] then False
      else
        (let due = Date_parse dateStr;
             now = Date_now h;
             due' = Date_setHours h due 23 59 59 999
         in js_less due' now))"

text \<open>
  The interfaces declare \<open>description\<close>, \<open>department\<close> and \<open>specific_area\<close> as strings and
  the three factors as numbers, but an upload stores in them what the service sent; they
  hold JSON values here. \<open>risk_score\<close> is the result of a multiplication, a number.
\<close>

record ActionItem =
  action_id :: string
  description :: json
  dueDate :: string
  isCompleted :: bool
  responsibleId :: "string option"

text \<open>
  \<open>RiskItem\<close>: the fields the calculations and the state updates read or write. The
  free-text fields (\<open>source\<close>, \<open>activity\<close>, \<open>hazard\<close>, \<open>risks\<close>,
  \<open>current_measures\<close>), \<open>detectionDate\<close> and \<open>image\<close> are only copied and displayed
  and are left out. The \<open>status\<close> literals are \<open>Acik\<close>, \<open>Devam Ediyor\<close>, \<open>Tamamlandi\<close>.
\<close>

datatype risk_status = Acik | Devam_Ediyor | Tamamlandi

record RiskItem =
  risk_id :: string
  location :: string
  department :: json
  specific_area :: json
  probability :: json
  frequency :: json
  severity :: json
  risk_score :: number
  actions :: "ActionItem list"
  status :: risk_status

text \<open>
  \<open>overdueActionsCount\<close> is a \<open>reduce\<close> over \<open>filteredRisks\<close> that adds, for every
  risk, the number of its actions that are not completed and overdue. Here every call of
  \<open>isOverdue\<close> within one evaluation sees the same reading of the clock; the section on
  readings of the clock below gives each call its own.
\<close>

definition overdueActionsCount :: "'z host_scheme \<Rightarrow> RiskItem list \<Rightarrow> nat" where
  "overdueActionsCount h filteredRisks =
     foldl (\<lambda>count risk.
              count + length (filter (\<lambda>a. \<not> isCompleted a \<and> isOverdue h (dueDate a))
                                     (actions risk)))
           0 filteredRisks"

section \<open>Threshold resolution\<close>

record BusinessUnit =
  unit_id :: string
  unit_name :: string
  unit_thresholds :: "RiskThresholds option"

record Registry =
  reg_id :: string
  reg_name :: string
  units :: "BusinessUnit list"
  isExpanded :: bool

text \<open>\<open>getAllUnits\<close> pushes every unit of every registry, in order, onto one array.\<close>

definition getAllUnits :: "Registry list \<Rightarrow> BusinessUnit list" where
  "getAllUnits registries =
     foldl (\<lambda>acc reg. foldl (\<lambda>acc' u. acc' @ [u]) acc (units reg)) [] registries"

text \<open>
  \<open>unit?.thresholds || DEFAULT_THRESHOLDS\<close>: the default when no unit has the name or the
  unit found has no \<open>thresholds\<close>; an object is never falsy.
\<close>

definition getThresholdsForLocation :: "Registry list \<Rightarrow> string \<Rightarrow> RiskThresholds" where
  "getThresholdsForLocation registries locName =
     (let allUnits = getAllUnits registries;
          unit = find (\<lambda>u. unit_name u = locName) allUnits
      in case unit of
           None \<Rightarrow> DEFAULT_THRESHOLDS
         | Some u \<Rightarrow>
             (case unit_thresholds u of
                None \<Rightarrow> DEFAULT_THRESHOLDS
              | Some t \<Rightarrow> t))"

section \<open>The list of risks and its updates\<close>

text \<open>
  The two sample risks the application starts with (texts spelled without diacritics).
\<close>

definition SAMPLE_RISKS :: "RiskItem list" where
  "SAMPLE_RISKS =
     [\<lparr>risk_id = ''sample-1'', location = ''Genel Mudurluk'', department = JStr ''Mutfak'',
       specific_area = JStr ''Bulasikhane'',
       probability = JNum (Fin 3), frequency = JNum (Fin 6), severity = JNum (Fin 7),
       risk_score = Fin 126,
       actions =
         [\<lparr>action_id = ''act-1'', description = JStr ''Kaymaz zemin kaplamasi yapilmali'',
           dueDate = ''2024-06-20'', isCompleted = False, responsibleId = None\<rparr>,
          \<lparr>action_id = ''act-2'', description = JStr ''Uyari levhalari temin edilmeli'',
           dueDate = ''2024-05-25'', isCompleted = True, responsibleId = Some ''emp-1''\<rparr>],
       status = Devam_Ediyor\<rparr>,
      \<lparr>risk_id = ''sample-2'', location = ''Ek Bina'',
       department = JStr ''Teknik Oda / Sistem Odasi'', specific_area = JStr ''Elektrik Panosu'',
       probability = JNum (Fin 3), frequency = JNum (Fin 3), severity = JNum (Fin 40),
       risk_score = Fin 360,
       actions =
         [\<lparr>action_id = ''act-3'',
           description = JStr ''Kablolar izole edilmeli ve pano kilitlenmeli'',
           dueDate = ''2024-05-21'', isCompleted = False, responsibleId = Some ''emp-2''\<rparr>],
       status = Acik\<rparr>]"

text \<open>
  One element of the array the analysis service returns (\<open>r: any\<close> in the source): each
  field the upload reads is absent or holds some JSON value.
\<close>

record analysis_item =
  ai_department :: "json option"
  ai_specific_area :: "json option"
  ai_probability :: "json option"
  ai_frequency :: "json option"
  ai_severity :: "json option"
  ai_actions :: "json option"

text \<open>
  \<open>calculateSLADate\<close> uses its score in the four comparisons \<open>score > boundary\<close> only. The
  score of an upload is a product and may be \<open>NaN\<close> or infinite: plus infinity is above
  every boundary, as is any real above all four; \<open>NaN\<close> and minus infinity are above no
  boundary, as is any real that is above none. \<open>comparand\<close> picks such a real.
\<close>

definition comparand :: "number \<Rightarrow> RiskThresholds \<Rightarrow> real" where
  "comparand score t =
     (case score of
        Fin x \<Rightarrow> x
      | PosInf \<Rightarrow> max (max (intolerable t) (substantial t)) (max (important t) (possible t)) + 1
      | _ \<Rightarrow> min (min (intolerable t) (substantial t)) (min (important t) (possible t)))"

text \<open>
  \<open>generateId()\<close> mixes the clock with a random number; the identifiers it returns are
  parameters here: \<open>rid\<close> for the risk and \<open>aid k\<close> for its \<open>k\<close>-th action.
  \<open>Array.isArray(r.actions)\<close> holds of an array only. Every action calls
  \<open>calculateSLADate\<close> for itself, and every call reads the clock: \<open>hs k\<close> is the host
  as the call for the \<open>k\<close>-th action finds it.
\<close>

definition newRisk ::
  "platform \<Rightarrow> (nat \<Rightarrow> 'z host_scheme) \<Rightarrow> string \<Rightarrow> RiskThresholds \<Rightarrow> string \<Rightarrow>
   (nat \<Rightarrow> string) \<Rightarrow> analysis_item \<Rightarrow> RiskItem"
  where
  "newRisk P hs selectedLocation currentThresholds rid aid r =
     (let score =
            Number_multiply P
              (Number_multiply P (ToNumber P (or_else (ai_probability r) (JNum (Fin 1))))
                                 (ToNumber P (or_else (ai_frequency r) (JNum (Fin 1)))))
              (ToNumber P (or_else (ai_severity r) (JNum (Fin 1))))
      in \<lparr>risk_id = rid, location = selectedLocation,
          department = or_else (ai_department r) (JStr ''Genel''),
          specific_area = or_else (ai_specific_area r) (JStr []),
          probability = or_else (ai_probability r) (JNum (Fin 1)),
          frequency = or_else (ai_frequency r) (JNum (Fin 1)),
          severity = or_else (ai_severity r) (JNum (Fin 1)),
          risk_score = score,
          actions =
            (case ai_actions r of
               Some (JArr as) \<Rightarrow>
                 map (\<lambda>(k, a). \<lparr>action_id = aid k, description = a,
                                  dueDate = calculateSLADate (hs k)
                                              (comparand score currentThresholds)
                                              currentThresholds,
                                  isCompleted = False, responsibleId = None\<rparr>)
                     (enumerate 0 as)
             | _ \<Rightarrow> []),
          status = Acik\<rparr>)"

text \<open>
  \<open>setRisks(prev => [...newRisks, ...prev])\<close>, with one new risk for every element of the
  service's answer; \<open>hs i k\<close> is the host at the call for the \<open>k\<close>-th action of the
  \<open>i\<close>-th element.
\<close>

definition handleFileUpload ::
  "platform \<Rightarrow> (nat \<Rightarrow> nat \<Rightarrow> 'z host_scheme) \<Rightarrow> string \<Rightarrow> RiskThresholds \<Rightarrow>
   (nat \<Rightarrow> string \<times> (nat \<Rightarrow> string)) \<Rightarrow> analysis_item list \<Rightarrow> RiskItem list \<Rightarrow> RiskItem list"
  where
  "handleFileUpload P hs selectedLocation currentThresholds ids res prev =
     (let newRisks =
            map (\<lambda>(i, r). newRisk P (hs i) selectedLocation currentThresholds
                             (fst (ids i)) (snd (ids i)) r)
                (enumerate 0 res)
      in newRisks @ prev)"

definition deleteRisk :: "string \<Rightarrow> RiskItem list \<Rightarrow> RiskItem list" where
  "deleteRisk i prev = filter (\<lambda>r. risk_id r \<noteq> i) prev"

definition updateStatus :: "string \<Rightarrow> risk_status \<Rightarrow> RiskItem list \<Rightarrow> RiskItem list" where
  "updateStatus i st prev = map (\<lambda>r. if risk_id r = i then r\<lparr>status := st\<rparr> else r) prev"

definition addAction ::
  "string \<Rightarrow> string \<Rightarrow> string \<Rightarrow> string \<Rightarrow> string option \<Rightarrow> RiskItem list \<Rightarrow> RiskItem list"
  where
  "addAction new_id i desc due resp prev =
     (let newAction = \<lparr>action_id = new_id, description = JStr desc, dueDate = due,
                       isCompleted = False, responsibleId = resp\<rparr>
      in map (\<lambda>r. if risk_id r = i then r\<lparr>actions := actions r @ [newAction]\<rparr> else r) prev)"

definition deleteAction :: "string \<Rightarrow> string \<Rightarrow> RiskItem list \<Rightarrow> RiskItem list" where
  "deleteAction riskId actionId prev =
     map (\<lambda>r. if risk_id r = riskId
               then r\<lparr>actions := filter (\<lambda>a. action_id a \<noteq> actionId) (actions r)\<rparr>
               else r) prev"

definition toggleAction :: "string \<Rightarrow> string \<Rightarrow> RiskItem list \<Rightarrow> RiskItem list" where
  "toggleAction riskId actionId prev =
     map (\<lambda>r. if risk_id r \<noteq> riskId then r
               else r\<lparr>actions :=
                        map (\<lambda>a. if action_id a = actionId
                                  then a\<lparr>isCompleted := \<not> isCompleted a\<rparr> else a)
                            (actions r)\<rparr>) prev"

definition updateActionDate ::
  "string \<Rightarrow> string \<Rightarrow> string \<Rightarrow> RiskItem list \<Rightarrow> RiskItem list" where
  "updateActionDate riskId actionId date prev =
     map (\<lambda>r. if risk_id r \<noteq> riskId then r
               else r\<lparr>actions :=
                        map (\<lambda>a. if action_id a = actionId then a\<lparr>dueDate := date\<rparr> else a)
                            (actions r)\<rparr>) prev"

definition updateActionResponsible ::
  "string \<Rightarrow> string \<Rightarrow> string \<Rightarrow> RiskItem list \<Rightarrow> RiskItem list" where
  "updateActionResponsible riskId actionId resp prev =
     map (\<lambda>r. if risk_id r \<noteq> riskId then r
               else r\<lparr>actions :=
                        map (\<lambda>a. if action_id a = actionId
                                  then a\<lparr>responsibleId := Some resp\<rparr> else a)
                            (actions r)\<rparr>) prev"

definition updateRiskLocation ::
  "string \<Rightarrow> string \<Rightarrow> string \<Rightarrow> RiskItem list \<Rightarrow> RiskItem list" where
  "updateRiskLocation i dept spec prev =
     map (\<lambda>r. if risk_id r = i then r\<lparr>department := JStr dept, specific_area := JStr spec\<rparr>
               else r) prev"

text \<open>
  The values the \<open>risks\<close> state can take at a platform \<open>P\<close>: it starts as
  \<open>SAMPLE_RISKS\<close> and every \<open>setRisks\<close> call in the source is one of the nine updates
  above.
\<close>

inductive risksState :: "platform \<Rightarrow> RiskItem list \<Rightarrow> bool" for P :: platform where
  initial: "risksState P SAMPLE_RISKS"
| upload:
    "risksState P rs \<Longrightarrow>
     risksState P (handleFileUpload P (hs :: nat \<Rightarrow> nat \<Rightarrow> host) loc th ids res rs)"
| delete: "risksState P rs \<Longrightarrow> risksState P (deleteRisk i rs)"
| setStatus: "risksState P rs \<Longrightarrow> risksState P (updateStatus i st rs)"
| add: "risksState P rs \<Longrightarrow> risksState P (addAction new_id i desc due resp rs)"
| remove: "risksState P rs \<Longrightarrow> risksState P (deleteAction i a rs)"
| toggle: "risksState P rs \<Longrightarrow> risksState P (toggleAction i a rs)"
| setDate: "risksState P rs \<Longrightarrow> risksState P (updateActionDate i a d rs)"
| setResponsible: "risksState P rs \<Longrightarrow> risksState P (updateActionResponsible i a p rs)"
| setLocation: "risksState P rs \<Longrightarrow> risksState P (updateRiskLocation i dept spec rs)"

text \<open>
  Recomputing the product from the three factors a record stores, as the upload computed
  it: left to right, each operand converted by \<open>ToNumber\<close>.
\<close>

definition recomputedScore :: "platform \<Rightarrow> RiskItem \<Rightarrow> number" where
  "recomputedScore P r =
     Number_multiply P
       (Number_multiply P (ToNumber P (probability r)) (ToNumber P (frequency r)))
       (ToNumber P (severity r))"

text \<open>
  Two facts of double multiplication that the statements below take as hypotheses on the
  platform: the products of the small integers in the sample data are exact, and the
  product of two finite numbers is never \<open>NaN\<close>.
\<close>

definition exactOnSamples :: "platform \<Rightarrow> bool" where
  "exactOnSamples P \<longleftrightarrow>
     fmul P 3 6 = Fin 18 \<and> fmul P 18 7 = Fin 126 \<and> fmul P 3 3 = Fin 9 \<and> fmul P 9 40 = Fin 360"

definition finiteProductsAreNumbers :: "platform \<Rightarrow> bool" where
  "finiteProductsAreNumbers P \<longleftrightarrow> (\<forall>x y. fmul P x y \<noteq> NaN)"

text \<open>
  What every record of the state satisfies: the stored score is the product recomputed
  from the stored factors, and each stored factor is truthy (a falsy one was replaced by 1).
\<close>

definition scoreInvariant :: "platform \<Rightarrow> RiskItem \<Rightarrow> bool" where
  "scoreInvariant P r \<longleftrightarrow>
     risk_score r = recomputedScore P r \<and>
     truthy (probability r) \<and> truthy (frequency r) \<and> truthy (severity r)"

text \<open>
  A platform for the examples. It multiplies exactly, and it reads the empty string as 0,
  a string of decimal digits as its value and any other string as \<open>NaN\<close> (ECMAScript also
  reads signs, fractions, exponents and other radixes and skips surrounding white space;
  the examples use a word and nothing of these).
\<close>

definition examplePlatform :: platform where
  "examplePlatform =
     \<lparr>fmul = (\<lambda>x y. Fin (x * y)),
      StringToNumber =
        (\<lambda>s. if s = [] then Fin 0
             else (case digitsVal s of Some v \<Rightarrow> Fin (real_of_int v) | None \<Rightarrow> NaN))\<rparr>"

text \<open>
  Two uploads at that platform, on top of the sample risks. In the first the service
  sends the word \<open>yuksek\<close> ("high") as the probability; in the second the factors are
  the numbers 0.5, 6 and 15.
\<close>

definition uploadWithWord :: "RiskItem list" where
  "uploadWithWord =
     handleFileUpload examplePlatform
       (\<lambda>i k. \<lparr>clock = 1717200000000, localTZA = 10800000\<rparr>)
       ''Ek Bina'' DEFAULT_THRESHOLDS (\<lambda>i. (''r-1'', \<lambda>k. ''a-1''))
       [\<lparr>ai_department = Some (JStr ''Mutfak''), ai_specific_area = None,
         ai_probability = Some (JStr ''yuksek''), ai_frequency = Some (JNum (Fin 6)),
         ai_severity = Some (JNum (Fin 7)), ai_actions = Some (JArr [JStr ''Zemin kurutulmali''])\<rparr>]
       SAMPLE_RISKS"

definition uploadWithNumbers :: "RiskItem list" where
  "uploadWithNumbers =
     handleFileUpload examplePlatform
       (\<lambda>i k. \<lparr>clock = 1717200000000, localTZA = 10800000\<rparr>)
       ''Ek Bina'' DEFAULT_THRESHOLDS (\<lambda>i. (''r-1'', \<lambda>k. ''a-1''))
       [\<lparr>ai_department = None, ai_specific_area = None,
         ai_probability = Some (JNum (Fin (1 / 2))), ai_frequency = Some (JNum (Fin 6)),
         ai_severity = Some (JNum (Fin 15)), ai_actions = None\<rparr>]
       SAMPLE_RISKS"

section \<open>Readings of the clock\<close>

text \<open>
  Every evaluation of \<open>new Date()\<close> is one reading of the clock, and the clock moves
  between readings. \<open>rd k\<close> is the \<open>k\<close>-th reading of a session and \<open>tz\<close> the zone. A
  function started at position \<open>n\<close> returns its result and the position after its last
  reading; its result is that of the definition above at the host of the reading it takes.
  \<open>calculateSLADate\<close> reads the clock once. \<open>calculateValidity\<close> and \<open>isOverdue\<close> return
  on an empty date before they read, and read once otherwise.
\<close>

definition hostAt :: "int \<Rightarrow> (nat \<Rightarrow> int) \<Rightarrow> nat \<Rightarrow> host" where
  "hostAt tz rd n = \<lparr>clock = rd n, localTZA = tz\<rparr>"

definition calculateSLADate_run ::
  "int \<Rightarrow> (nat \<Rightarrow> int) \<Rightarrow> nat \<Rightarrow> real \<Rightarrow> RiskThresholds \<Rightarrow> string \<times> nat" where
  "calculateSLADate_run tz rd n score thresholds =
     (calculateSLADate (hostAt tz rd n) score thresholds, Suc n)"

definition calculateValidity_run ::
  "int \<Rightarrow> (nat \<Rightarrow> int) \<Rightarrow> nat \<Rightarrow> string \<Rightarrow> HazardClass \<Rightarrow> compliance_type \<Rightarrow> validity \<times> nat"
  where
  "calculateValidity_run tz rd n dateStr hazardClass type =
     (calculateValidity (hostAt tz rd n) dateStr hazardClass type,
      if dateStr = [] then n else Suc n)"

definition isOverdue_run :: "int \<Rightarrow> (nat \<Rightarrow> int) \<Rightarrow> nat \<Rightarrow> string \<Rightarrow> bool \<times> nat" where
  "isOverdue_run tz rd n dateStr =
     (isOverdue (hostAt tz rd n) dateStr, if dateStr = [] then n else Suc n)"

text \<open>\<open>getRiskClass\<close> does not read the clock.\<close>

definition getRiskClass_run ::
  "int \<Rightarrow> (nat \<Rightarrow> int) \<Rightarrow> nat \<Rightarrow> real \<Rightarrow> RiskThresholds \<Rightarrow> risk_class \<times> nat" where
  "getRiskClass_run tz rd n score thresholds = (getRiskClass score thresholds, n)"

text \<open>
  The filter of \<open>overdueActionsCount\<close> evaluates \<open>!a.isCompleted && isOverdue(a.dueDate)\<close>
  on the actions in order: a completed action does not reach \<open>isOverdue\<close>, every other
  action calls it, and each call that gets past the empty date takes a reading of its own.
\<close>

fun overdueFilter_run ::
  "int \<Rightarrow> (nat \<Rightarrow> int) \<Rightarrow> nat \<Rightarrow> ActionItem list \<Rightarrow> ActionItem list \<times> nat" where
  "overdueFilter_run tz rd n [] = ([], n)"
| "overdueFilter_run tz rd n (a # as) =
     (let (b, n1) = (if isCompleted a then (False, n) else isOverdue_run tz rd n (dueDate a));
          (rest, n2) = overdueFilter_run tz rd n1 as
      in (if b then a # rest else rest, n2))"

definition overdueActionsCount_run ::
  "int \<Rightarrow> (nat \<Rightarrow> int) \<Rightarrow> nat \<Rightarrow> RiskItem list \<Rightarrow> nat \<times> nat" where
  "overdueActionsCount_run tz rd n filteredRisks =
     foldl (\<lambda>(count, k) risk.
              (let (xs, k') = overdueFilter_run tz rd k (actions risk)
               in (count + length xs, k')))
           (0, n) filteredRisks"

text \<open>The number of readings one evaluation of the overdue count takes.\<close>

definition overdueReads :: "RiskItem list \<Rightarrow> nat" where
  "overdueReads filteredRisks =
     sum_list (map (\<lambda>risk. length (filter (\<lambda>a. \<not> isCompleted a \<and> dueDate a \<noteq> [])
                                           (actions risk))) filteredRisks)"

text \<open>
  Two sessions for the examples, at a host three hours east of UTC. In the first the
  readings 0 and 1 are 2024-05-22 10:00 UTC and the later ones a day after; in the second
  every reading is 2024-05-22 10:00 UTC.
\<close>

definition sessionA :: "nat \<Rightarrow> int" where
  "sessionA k = (if k < 2 then 1716372000000 else 1716458400000)"

definition sessionB :: "nat \<Rightarrow> int" where
  "sessionB k = 1716372000000"

text \<open>
  One risk with two open actions due on 2024-01-01, and a session whose reading 0 is the
  last millisecond of that day at a host three hours east of UTC (20:59:59.999 UTC) and
  whose later readings are the millisecond after.
\<close>

definition twoDueTheSameDay :: "RiskItem list" where
  "twoDueTheSameDay =
     [\<lparr>risk_id = ''r-1'', location = ''Ek Bina'', department = JStr ''Genel'',
       specific_area = JStr [], probability = JNum (Fin 1), frequency = JNum (Fin 1),
       severity = JNum (Fin 1), risk_score = Fin 1,
       actions =
         [\<lparr>action_id = ''a-1'', description = JStr ''x'', dueDate = ''2024-01-01'',
           isCompleted = False, responsibleId = None\<rparr>,
          \<lparr>action_id = ''a-2'', description = JStr ''y'', dueDate = ''2024-01-01'',
           isCompleted = False, responsibleId = None\<rparr>],
       status = Acik\<rparr>]"

definition aroundMidnight :: "nat \<Rightarrow> int" where
  "aroundMidnight k = (if k = 0 then 1704142799999 else 1704142800000)"

section \<open>The rules as the specification words them\<close>

text \<open>
  The day offset of each tier (specification, SLA scheduler): 0 days for the intolerable
  tier, then 30, 60, 90 and 180.
\<close>

fun slaOffsetDays :: "risk_label \<Rightarrow> int" where
  "slaOffsetDays TOLERANS_GOSTERILEMEZ = 0"
| "slaOffsetDays ESASLI_RISK = 30"
| "slaOffsetDays ONEMLI_RISK = 60"
| "slaOffsetDays OLASI_RISK = 90"
| "slaOffsetDays ONEMSIZ_RISK = 180"

text \<open>The calendar date of a day number, printed as the scheduler prints it.\<close>

definition formatDay :: "int \<Rightarrow> string" where
  "formatDay d =
     (let t = MakeDate d 0
      in Number_toString (Some (YearFromTime t)) @ ''-'' @
         padStart2 (Number_toString (Some (MonthFromTime t + 1))) @ ''-'' @
         padStart2 (Number_toString (Some (DateFromTime t))))"

text \<open>The validity table of the specification, in years.\<close>

fun validityYears :: "HazardClass \<Rightarrow> compliance_type \<Rightarrow> int" where
  "validityYears Cok_Tehlikeli training = 1"
| "validityYears Cok_Tehlikeli health = 1"
| "validityYears Tehlikeli training = 2"
| "validityYears Tehlikeli health = 3"
| "validityYears Az_Tehlikeli training = 3"
| "validityYears Az_Tehlikeli health = 5"

text \<open>
  The due date of the specification: the calendar date \<open>(y, m, d)\<close> with the year advanced
  by \<open>n\<close>, as a time value (dates carry no time of day and no zone: midnight UTC, which
  is how the date string itself is read).
\<close>

definition dueDateSpec :: "int \<times> int \<times> int \<Rightarrow> int \<Rightarrow> int" where
  "dueDateSpec ymd n = (case ymd of (y, m, d) \<Rightarrow> MakeDate (MakeDay (y + n) (m - 1) d) 0)"

definition daysRemainingSpec :: "int \<Rightarrow> int \<Rightarrow> int" where
  "daysRemainingSpec due now = \<lceil>real_of_int (due - now) / real_of_int msPerDay\<rceil>"

definition statusSpec :: "int \<Rightarrow> validity_status" where
  "statusSpec n = (if n < 0 then expired else if n < 60 then warning else valid)"

text \<open>
  A calendar date proper: the month 1 to 12 and the day within the length of the month.
\<close>

definition daysInMonth :: "int \<Rightarrow> int \<Rightarrow> int" where
  "daysInMonth y m =
     (if m = 2 then (if DaysInYear y = 366 then 29 else 28)
      else if m = 4 \<or> m = 6 \<or> m = 9 \<or> m = 11 then 30
      else 31)"

definition validDate :: "int \<times> int \<times> int \<Rightarrow> bool" where
  "validDate ymd =
     (case ymd of (y, m, d) \<Rightarrow> 1 \<le> m \<and> m \<le> 12 \<and> 1 \<le> d \<and> d \<le> daysInMonth y m)"

text \<open>
  The end of the due day of the specification: 23:59:59.999 local time on the calendar
  date \<open>(y, m, d)\<close>, as a time value.
\<close>

definition endOfDayLocal :: "'z host_scheme \<Rightarrow> int \<times> int \<times> int \<Rightarrow> int" where
  "endOfDayLocal h ymd =
     (case ymd of (y, m, d) \<Rightarrow> UTC h (MakeDate (MakeDay y (m - 1) d) (MakeTime 23 59 59 999)))"

definition overdueSpec :: "'z host_scheme \<Rightarrow> ActionItem \<Rightarrow> bool" where
  "overdueSpec h a =
     (\<not> isCompleted a \<and>
      (case parseYMD (dueDate a) of
         None \<Rightarrow> False
       | Some ymd \<Rightarrow> endOfDayLocal h ymd < clock h))"

section \<open>The classifier\<close>

lemma getRiskClass_label:
  "rc_label (getRiskClass score t) =
     (if score > intolerable t then TOLERANS_GOSTERILEMEZ
      else if score > substantial t then ESASLI_RISK
      else if score > important t then ONEMLI_RISK
      else if score > possible t then OLASI_RISK
      else ONEMSIZ_RISK)"
  by (simp add: getRiskClass_def)

text \<open>
  C2, as stated, at thresholds that are not descending: with the intolerable boundary 100
  below the substantial boundary 200, the score 200 equals the substantial boundary and
  is classified above the substantial tier, not below it.
\<close>

theorem getRiskClass_boundary_counterexample:
  "severityRank (rc_label (getRiskClass 200
      \<lparr>intolerable = 100, substantial = 200, important = 70, possible = 20\<rparr>))
   > severityRank ESASLI_RISK"
  by (simp add: getRiskClass_label)

text \<open>
  C2 (amended). The boundaries are exclusive lower bounds for every thresholds value: a
  score equal to a boundary never receives that boundary's own tier. When the thresholds
  are strictly descending it receives exactly the next lower tier. The score 400 under
  the default thresholds is \<open>ESASLI RISK\<close> (substantial), not intolerable.
\<close>

theorem getRiskClass_boundary:
  "(score = intolerable t \<longrightarrow> rc_label (getRiskClass score t) \<noteq> TOLERANS_GOSTERILEMEZ) \<and>
   (score = substantial t \<longrightarrow> rc_label (getRiskClass score t) \<noteq> ESASLI_RISK) \<and>
   (score = important t \<longrightarrow> rc_label (getRiskClass score t) \<noteq> ONEMLI_RISK) \<and>
   (score = possible t \<longrightarrow> rc_label (getRiskClass score t) \<noteq> OLASI_RISK) \<and>
   (strictlyDescending t \<longrightarrow>
      (score = intolerable t \<longrightarrow> rc_label (getRiskClass score t) = ESASLI_RISK) \<and>
      (score = substantial t \<longrightarrow> rc_label (getRiskClass score t) = ONEMLI_RISK) \<and>
      (score = important t \<longrightarrow> rc_label (getRiskClass score t) = OLASI_RISK) \<and>
      (score = possible t \<longrightarrow> rc_label (getRiskClass score t) = ONEMSIZ_RISK)) \<and>
   rc_label (getRiskClass 400 DEFAULT_THRESHOLDS) = ESASLI_RISK"
  by (simp add: getRiskClass_label strictlyDescending_def DEFAULT_THRESHOLDS_def)

theorem getRiskClass_boundary_witness:
  "strictlyDescending DEFAULT_THRESHOLDS \<and> (70::real) = important DEFAULT_THRESHOLDS \<and>
   rc_label (getRiskClass 70 DEFAULT_THRESHOLDS) = OLASI_RISK \<and>
   rc_label (getRiskClass 70 DEFAULT_THRESHOLDS) \<noteq> ONEMLI_RISK"
  using getRiskClass_boundary [of 70 DEFAULT_THRESHOLDS]
  by (simp add: strictlyDescending_def DEFAULT_THRESHOLDS_def)

text \<open>
  C9. For every thresholds value, descending or not, the tier is monotone in the score:
  a score that is not larger never gets a more severe tier.
\<close>

theorem getRiskClass_monotone:
  "s1 \<le> s2 \<Longrightarrow>
   severityRank (rc_label (getRiskClass s1 t)) \<le> severityRank (rc_label (getRiskClass s2 t))"
  by (simp add: getRiskClass_label)

theorem getRiskClass_monotone_witness:
  "(126::real) \<le> 360 \<and>
   severityRank (rc_label (getRiskClass 126
      \<lparr>intolerable = 100, substantial = 200, important = 300, possible = 20\<rparr>))
   \<le> severityRank (rc_label (getRiskClass 360
      \<lparr>intolerable = 100, substantial = 200, important = 300, possible = 20\<rparr>))"
  using getRiskClass_monotone
    [of 126 360 "\<lparr>intolerable = 100, substantial = 200, important = 300, possible = 20\<rparr>"]
  by simp

section \<open>Missing dates\<close>

text \<open>
  C6. On the empty date string \<open>calculateValidity\<close> returns the status \<open>missing\<close> with 0
  days, whatever the hazard class, the compliance type and the host; that status is not
  \<open>expired\<close>.
\<close>

theorem calculateValidity_empty:
  "v_status (calculateValidity h [] hazardClass type) = missing \<and>
   v_days (calculateValidity h [] hazardClass type) = Some 0 \<and>
   v_status (calculateValidity h [] hazardClass type) \<noteq> expired"
  by (simp add: calculateValidity_def)

lemma overdueActionsCount_sum:
  "overdueActionsCount h rs =
     sum_list (map (\<lambda>risk. length (filter (\<lambda>a. \<not> isCompleted a \<and> isOverdue h (dueDate a))
                                           (actions risk))) rs)"
proof -
  have "foldl (\<lambda>count risk. count + length (filter (\<lambda>a. \<not> isCompleted a \<and> isOverdue h (dueDate a))
                                                    (actions risk))) n rs
        = n + sum_list (map (\<lambda>risk. length (filter (\<lambda>a. \<not> isCompleted a \<and> isOverdue h (dueDate a))
                                                     (actions risk))) rs)" for n
    by (induction rs arbitrary: n) simp_all
  then show ?thesis by (simp add: overdueActionsCount_def)
qed

text \<open>
  C10. The overdue test is false on the empty date string, at every host; and an action
  whose due date is empty adds nothing to the overdue count, completed or not: the count
  is the same with that action removed from its risk.
\<close>

theorem isOverdue_empty:
  "isOverdue h [] = False \<and>
   (dueDate a = [] \<longrightarrow>
      overdueActionsCount h (pre @ r\<lparr>actions := xs @ a # ys\<rparr> # post) =
      overdueActionsCount h (pre @ r\<lparr>actions := xs @ ys\<rparr> # post))"
  by (simp add: overdueActionsCount_sum isOverdue_def)

theorem isOverdue_empty_witness:
  "dueDate \<lparr>action_id = ''act-9'', description = JStr ''x'', dueDate = [], isCompleted = False,
            responsibleId = None\<rparr> = [] \<and>
   overdueActionsCount \<lparr>clock = 1717200000000, localTZA = 10800000\<rparr>
     (map (\<lambda>r. r\<lparr>actions := \<lparr>action_id = ''act-9'', description = JStr ''x'', dueDate = [],
                                isCompleted = False, responsibleId = None\<rparr> # actions r\<rparr>)
          (take 1 SAMPLE_RISKS)) =
   overdueActionsCount \<lparr>clock = 1717200000000, localTZA = 10800000\<rparr> (take 1 SAMPLE_RISKS)"
  using isOverdue_empty
    [where h = "\<lparr>clock = 1717200000000, localTZA = 10800000\<rparr>"
       and a = "\<lparr>action_id = ''act-9'', description = JStr ''x'', dueDate = [],
                 isCompleted = False, responsibleId = None\<rparr>"
       and pre = "[]" and r = "hd SAMPLE_RISKS" and xs = "[]"
       and ys = "actions (hd SAMPLE_RISKS)" and post = "[]"]
  by (simp add: SAMPLE_RISKS_def)

section \<open>The calendar\<close>

text \<open>
  \<open>YearFromDay\<close> is the year ECMA-262 defines: the one whose first day is not after the
  given day while the first day of the next year is.
\<close>

lemma DayFromYear_bounds:
  "146097 * (z - 1970) - 506 \<le> 400 * DayFromYear z"
  "400 * DayFromYear z \<le> 146097 * (z - 1970) + 589"
proof -
  define a where "a = (z - 1969) div 4"
  define b where "b = (z - 1901) div 100"
  define c where "c = (z - 1601) div 400"
  have A: "4 * a \<le> z - 1969" "z - 1969 < 4 * a + 4" unfolding a_def by linarith+
  have B: "100 * b \<le> z - 1901" "z - 1901 < 100 * b + 100" unfolding b_def by linarith+
  have C: "400 * c \<le> z - 1601" "z - 1601 < 400 * c + 400" unfolding c_def by linarith+
  have D: "DayFromYear z = 365 * (z - 1970) + a - b + c"
    by (simp add: DayFromYear_def a_def b_def c_def)
  show "146097 * (z - 1970) - 506 \<le> 400 * DayFromYear z"
    unfolding D using A B C by (simp add: algebra_simps)
  show "400 * DayFromYear z \<le> 146097 * (z - 1970) + 589"
    unfolding D using A B C by (simp add: algebra_simps)
qed

lemma YearFromDay_correct:
  "DayFromYear (YearFromDay d) \<le> d \<and> d < DayFromYear (YearFromDay d + 1)"
proof -
  define y where "y = 1970 + (400 * d) div 146097"
  have "146097 * ((400 * d) div 146097) \<le> 400 * d" by linarith
  then have lo: "146097 * (y - 1970) \<le> 400 * d" by (simp add: y_def)
  have "400 * d < 146097 * ((400 * d) div 146097) + 146097" by linarith
  then have hi: "400 * d < 146097 * (y - 1970) + 146097" by (simp add: y_def)
  have a: "DayFromYear (y - 1) \<le> d"
    using DayFromYear_bounds(2)[of "y - 1"] lo by (simp add: algebra_simps)
  have b: "d < DayFromYear (y + 1 + 1)"
    using DayFromYear_bounds(1)[of "y + 1 + 1"] hi by (simp add: algebra_simps)
  have r: "YearFromDay d =
             (if d < DayFromYear y then y - 1 else if DayFromYear (y + 1) \<le> d then y + 1 else y)"
    by (simp add: YearFromDay_def y_def Let_def)
  show ?thesis
  proof (cases "d < DayFromYear y")
    case True
    then show ?thesis using a r by simp
  next
    case False
    show ?thesis
    proof (cases "DayFromYear (y + 1) \<le> d")
      case True
      have "YearFromDay d = y + 1" using True False r by simp
      then show ?thesis using True b by simp
    next
      case F2: False
      then show ?thesis using False r by simp
    qed
  qed
qed

lemma div_succ:
  fixes x n :: int
  assumes "0 < n"
  shows "(x + 1) div n = x div n + (if (x + 1) mod n = 0 then 1 else 0)"
proof -
  define q where "q = x div n"
  define r where "r = x mod n"
  have x: "x = r + n * q" by (simp add: q_def r_def)
  have r: "0 \<le> r" "r < n" using assms by (simp_all add: r_def)
  show ?thesis
  proof (cases "r + 1 = n")
    case True
    then have e: "x + 1 = n * (q + 1)" using x by (simp add: algebra_simps)
    have "(x + 1) div n = q + 1" "(x + 1) mod n = 0"
      unfolding e using assms by simp_all
    then show ?thesis by (simp add: q_def)
  next
    case False
    then have s: "0 \<le> r + 1" "r + 1 < n" using r by simp_all
    have e: "x + 1 = (r + 1) + n * q" using x by simp
    have "(x + 1) div n = q + (r + 1) div n" "(x + 1) mod n = (r + 1) mod n"
      unfolding e using assms by simp_all
    then have "(x + 1) div n = q" "(x + 1) mod n = r + 1" using s by simp_all
    then show ?thesis using r by (simp add: q_def)
  qed
qed

lemma DayFromYear_step: "DayFromYear (y + 1) = DayFromYear y + DaysInYear y"
proof -
  have m4: "(y - 1968) mod 4 = y mod 4" by algebra
  have m100: "(y - 1900) mod 100 = y mod 100" by algebra
  have m400: "(y - 1600) mod 400 = y mod 400" by algebra
  have a: "(y + 1 - 1969) div 4 = (y - 1969) div 4 + (if y mod 4 = 0 then 1 else 0)"
    using div_succ [of 4 "y - 1969"] m4 by (simp add: algebra_simps)
  have b: "(y + 1 - 1901) div 100 = (y - 1901) div 100 + (if y mod 100 = 0 then 1 else 0)"
    using div_succ [of 100 "y - 1901"] m100 by (simp add: algebra_simps)
  have c: "(y + 1 - 1601) div 400 = (y - 1601) div 400 + (if y mod 400 = 0 then 1 else 0)"
    using div_succ [of 400 "y - 1601"] m400 by (simp add: algebra_simps)
  have d4: "y mod 100 = 0 \<Longrightarrow> y mod 4 = 0" by presburger
  have d100: "y mod 400 = 0 \<Longrightarrow> y mod 100 = 0" by presburger
  show ?thesis
    unfolding DayFromYear_def DaysInYear_def a b c using d4 d100 by auto
qed


text \<open>
  The year, month and day of a time value name its day: \<open>MakeDay\<close> on them gives the day
  number back, and a shift of the day of the month shifts the day number by as much.
\<close>

lemma MonthFromTime_range: "0 \<le> MonthFromTime t \<and> MonthFromTime t \<le> 11"
  by (simp add: MonthFromTime_def Let_def)

lemma monthStart_DateFromTime:
  "monthStart (MonthFromTime t) (InLeapYear t) + DateFromTime t - 1 = DayWithinYear t"
  by (simp add: DateFromTime_def MonthFromTime_def monthStart_def Let_def)

lemma MakeDay_of_time:
  "MakeDay (YearFromTime t) (MonthFromTime t) (DateFromTime t + k) = Day t + k"
proof -
  have m: "MonthFromTime t div 12 = 0" "MonthFromTime t mod 12 = MonthFromTime t"
    using MonthFromTime_range [of t] by simp_all
  have "MakeDay (YearFromTime t) (MonthFromTime t) (DateFromTime t + k) =
        DayFromYear (YearFromTime t) + monthStart (MonthFromTime t) (InLeapYear t)
          + (DateFromTime t + k) - 1"
    by (simp add: MakeDay_def m InLeapYear_def Let_def)
  also have "\<dots> = DayFromYear (YearFromTime t) + DayWithinYear t + k"
    using monthStart_DateFromTime [of t] by simp
  also have "\<dots> = Day t + k"
    by (simp add: DayWithinYear_def)
  finally show ?thesis .
qed

lemma Day_shift: "Day (t + k * msPerDay) = Day t + k"
  by (simp add: Day_def msPerDay_def)

lemma Day_MakeDate_0: "Day (MakeDate d 0) = d"
  by (simp add: Day_def MakeDate_def msPerDay_def)

lemma MakeDate_Day_TimeWithinDay: "MakeDate (Day t + k) (TimeWithinDay t) = t + k * msPerDay"
proof -
  have "Day t * msPerDay + TimeWithinDay t = t"
    by (simp add: Day_def TimeWithinDay_def)
  then show ?thesis by (simp add: MakeDate_def algebra_simps)
qed

lemma civil_depends_on_Day:
  assumes "Day t = Day u"
  shows "YearFromTime t = YearFromTime u" "MonthFromTime t = MonthFromTime u"
    "DateFromTime t = DateFromTime u"
proof -
  show y: "YearFromTime t = YearFromTime u" using assms by (simp add: YearFromTime_def)
  have d: "DayWithinYear t = DayWithinYear u" using assms y by (simp add: DayWithinYear_def)
  have l: "InLeapYear t = InLeapYear u" using y by (simp add: InLeapYear_def)
  show m: "MonthFromTime t = MonthFromTime u" by (simp add: MonthFromTime_def d l)
  show "DateFromTime t = DateFromTime u" by (simp add: DateFromTime_def d l m)
qed

lemma Date_setDate_shift:
  "Date_setDate h (Some t0) (Some (DateFromTime (LocalTime h t0) + k)) =
     TimeClip (t0 + k * msPerDay)"
  by (simp add: Date_setDate_def Let_def MakeDay_of_time MakeDate_Day_TimeWithinDay
        UTC_def LocalTime_def)

lemma formatDay_of_time:
  "Number_toString (Date_getFullYear h (Some t)) @ ''-'' @
   padStart2 (Number_toString (map_option (\<lambda>m. m + 1) (Date_getMonth h (Some t)))) @ ''-'' @
   padStart2 (Number_toString (Date_getDate h (Some t))) = formatDay (Day (LocalTime h t))"
  using civil_depends_on_Day [of "LocalTime h t" "MakeDate (Day (LocalTime h t)) 0"]
  by (simp add: formatDay_def Let_def Date_getFullYear_def Date_getMonth_def Date_getDate_def
        Day_MakeDate_0)

lemma slaTarget:
  assumes "\<bar>clock h\<bar> \<le> maxTime - 180 * msPerDay" and "0 \<le> k" and "k \<le> 180"
  shows "TimeClip (clock h + k * msPerDay) = Some (clock h + k * msPerDay)"
proof -
  have "k * msPerDay \<le> 180 * msPerDay" "0 \<le> k * msPerDay"
    using assms by (simp_all add: msPerDay_def)
  then have "\<bar>clock h + k * msPerDay\<bar> \<le> maxTime" using assms(1) by linarith
  then show ?thesis by (simp add: TimeClip_def)
qed

section \<open>Calendar dates and their time values\<close>

text \<open>
  The first day of a year moves forward with the year, so the year of a day is unique;
  a calendar date proper is the year, month and day of its own time value, at any time
  of that day. A parsed date string has a four-digit year and is always a valid time
  value.
\<close>

lemma DaysInYear_pos: "365 \<le> DaysInYear y \<and> DaysInYear y \<le> 366"
  by (simp add: DaysInYear_def)

lemma DayFromYear_mono_nat: "DayFromYear a \<le> DayFromYear (a + int n)"
proof (induction n)
  case 0
  then show ?case by simp
next
  case (Suc n)
  have "DayFromYear (a + int n + 1) = DayFromYear (a + int n) + DaysInYear (a + int n)"
    by (rule DayFromYear_step)
  then show ?case using Suc DaysInYear_pos [of "a + int n"] by (simp add: algebra_simps)
qed

lemma DayFromYear_mono: "a \<le> b \<Longrightarrow> DayFromYear a \<le> DayFromYear b"
  using DayFromYear_mono_nat [of a "nat (b - a)"] by simp

lemma YearFromDay_unique:
  assumes "DayFromYear y \<le> d" and "d < DayFromYear (y + 1)"
  shows "YearFromDay d = y"
proof (rule ccontr)
  assume n: "YearFromDay d \<noteq> y"
  note c = YearFromDay_correct [of d]
  show False
  proof (cases "YearFromDay d < y")
    case True
    then have "DayFromYear (YearFromDay d + 1) \<le> DayFromYear y"
      by (intro DayFromYear_mono) simp
    then show False using c assms by simp
  next
    case False
    then have "DayFromYear (y + 1) \<le> DayFromYear (YearFromDay d)"
      using n by (intro DayFromYear_mono) simp
    then show False using c assms by simp
  qed
qed

lemma digitVal_bounds: "digitVal c = Some v \<Longrightarrow> 0 \<le> v \<and> v \<le> 9"
  by (auto simp: digitVal_def Let_def split: if_splits)

lemma digitsVal_bounds: "digitsVal cs = Some v \<Longrightarrow> 0 \<le> v \<and> v < 10 ^ length cs"
proof (induction cs arbitrary: v)
  case Nil
  then show ?case by simp
next
  case (Cons c cs)
  from Cons.prems obtain a r where
    a: "digitVal c = Some a" and r: "digitsVal cs = Some r" and v: "v = a * 10 ^ length cs + r"
    by (auto split: option.splits)
  have ab: "0 \<le> a" "a \<le> 9" using digitVal_bounds [OF a] by simp_all
  have rb: "0 \<le> r" "r < 10 ^ length cs" using Cons.IH [OF r] by simp_all
  define p :: int where "p = 10 ^ length cs"
  have "a * p \<le> 9 * p"
    using ab by (intro mult_right_mono) (simp_all add: p_def)
  moreover have "0 \<le> a * p" using ab by (simp add: p_def)
  moreover have "r < p" "0 \<le> r" using rb by (simp_all add: p_def)
  ultimately have "0 \<le> a * p + r \<and> a * p + r < 10 * p" by linarith
  then show ?case by (simp add: v p_def)
qed

lemma parseYMD_bounds:
  assumes "parseYMD s = Some (y, m, d)"
  shows "0 \<le> y" "y \<le> 9999" "1 \<le> m" "m \<le> 12" "1 \<le> d" "d \<le> 31"
proof -
  from assms have l: "length s = 10"
    and y: "digitsVal (take 4 s) = Some y" and md: "1 \<le> m \<and> m \<le> 12 \<and> 1 \<le> d \<and> d \<le> 31"
    by (auto simp: parseYMD_def split: if_splits option.splits)
  have "0 \<le> y \<and> y < 10 ^ length (take 4 s)" by (rule digitsVal_bounds [OF y])
  then show "0 \<le> y" "y \<le> 9999" using l by simp_all
  show "1 \<le> m" "m \<le> 12" "1 \<le> d" "d \<le> 31" using md by simp_all
qed


lemma month_cases:
  fixes m :: int
  assumes "1 \<le> m" "m \<le> 12"
  shows "m = 1 \<or> m = 2 \<or> m = 3 \<or> m = 4 \<or> m = 5 \<or> m = 6 \<or> m = 7 \<or> m = 8 \<or> m = 9 \<or>
         m = 10 \<or> m = 11 \<or> m = 12"
  using assms by presburger

lemma monthStart_bounds:
  assumes "validDate (y, m, d)" and "l = (if DaysInYear y = 366 then 1 else 0)"
  shows "0 \<le> monthStart (m - 1) l + d - 1" "monthStart (m - 1) l + d - 1 < DaysInYear y"
proof -
  have m: "m = 1 \<or> m = 2 \<or> m = 3 \<or> m = 4 \<or> m = 5 \<or> m = 6 \<or> m = 7 \<or> m = 8 \<or> m = 9 \<or>
           m = 10 \<or> m = 11 \<or> m = 12"
    using assms(1) by (intro month_cases) (simp_all add: validDate_def)
  have y: "DaysInYear y = 365 \<or> DaysInYear y = 366" by (simp add: DaysInYear_def)
  have d: "1 \<le> d" "d \<le> daysInMonth y m" using assms(1) by (simp_all add: validDate_def)
  have l: "l = 0 \<or> l = 1" using assms(2) by simp
  show "0 \<le> monthStart (m - 1) l + d - 1"
    using m d(1) l by (elim disjE) (simp_all add: monthStart_def)
  show "monthStart (m - 1) l + d - 1 < DaysInYear y"
    using m d(2) assms(2) y by (elim disjE) (simp_all add: monthStart_def daysInMonth_def)
qed

lemma civil_of_valid_date:
  assumes v: "validDate (y, m, d)" and tm: "0 \<le> tm" "tm < msPerDay"
  shows "YearFromTime (MakeDate (MakeDay y (m - 1) d) tm) = y"
    and "MonthFromTime (MakeDate (MakeDay y (m - 1) d) tm) = m - 1"
    and "DateFromTime (MakeDate (MakeDay y (m - 1) d) tm) = d"
    and "TimeWithinDay (MakeDate (MakeDay y (m - 1) d) tm) = tm"
    and "Day (MakeDate (MakeDay y (m - 1) d) tm) = MakeDay y (m - 1) d"
proof -
  define l :: int where "l = (if DaysInYear y = 366 then 1 else 0)"
  define t where "t = MakeDate (MakeDay y (m - 1) d) tm"
  have m: "m = 1 \<or> m = 2 \<or> m = 3 \<or> m = 4 \<or> m = 5 \<or> m = 6 \<or> m = 7 \<or> m = 8 \<or> m = 9 \<or>
           m = 10 \<or> m = 11 \<or> m = 12"
    using v by (intro month_cases) (simp_all add: validDate_def)
  have mm: "(m - 1) div 12 = 0" "(m - 1) mod 12 = m - 1"
    using v by (simp_all add: validDate_def)
  have md: "MakeDay y (m - 1) d = DayFromYear y + (monthStart (m - 1) l + d - 1)"
    by (simp add: MakeDay_def mm l_def Let_def)
  show day: "Day t = MakeDay y (m - 1) d"
    using tm by (simp add: t_def Day_def MakeDate_def)
  show "TimeWithinDay t = tm"
    using tm by (simp add: t_def TimeWithinDay_def MakeDate_def)
  note b = monthStart_bounds [OF v l_def]
  have "YearFromDay (Day t) = y"
    using b by (intro YearFromDay_unique) (simp_all add: day md DayFromYear_step)
  then show yr: "YearFromTime t = y" by (simp add: YearFromTime_def)
  have dw: "DayWithinYear t = monthStart (m - 1) l + d - 1"
    by (simp add: DayWithinYear_def yr day md)
  have lp: "InLeapYear t = l" by (simp add: InLeapYear_def yr l_def)
  have l01: "l = 0 \<or> l = 1" by (simp add: l_def)
  have d1: "1 \<le> d" using v by (simp add: validDate_def)
  have d2: "d \<le> (if m = 2 then 28 + l
                   else if m = 4 \<or> m = 6 \<or> m = 9 \<or> m = 11 then 30 else 31)"
    using v by (auto simp: validDate_def daysInMonth_def l_def split: if_splits)
  have mo': "(let d' = monthStart (m - 1) l + d - 1
      in if d' < 31 then 0
         else if d' < 59 + l then 1
         else if d' < 90 + l then 2
         else if d' < 120 + l then 3
         else if d' < 151 + l then 4
         else if d' < 181 + l then 5
         else if d' < 212 + l then 6
         else if d' < 243 + l then 7
         else if d' < 273 + l then 8
         else if d' < 304 + l then 9
         else if d' < 334 + l then 10
         else 11) = m - 1"
    using m d1 d2 l01 by (elim disjE) (simp_all add: monthStart_def Let_def)
  show mo: "MonthFromTime t = m - 1"
    using mo' by (simp add: MonthFromTime_def dw lp Let_def)
  show "DateFromTime t = d"
    using m by (elim disjE) (simp_all add: DateFromTime_def mo dw lp Let_def monthStart_def)
qed

lemma MakeDay_bounds:
  assumes "0 \<le> y" "y \<le> 10004" "0 \<le> mn" "mn \<le> 11" "1 \<le> d" "d \<le> 31"
  shows "- 720000 \<le> MakeDay y mn d" "MakeDay y mn d \<le> 3000000"
proof -
  have mm: "mn div 12 = 0" "mn mod 12 = mn" using assms by simp_all
  define l :: int where "l = (if DaysInYear y = 366 then 1 else 0)"
  have md: "MakeDay y mn d = DayFromYear y + monthStart mn l + d - 1"
    by (simp add: MakeDay_def mm l_def Let_def)
  have ms: "0 \<le> monthStart mn l" "monthStart mn l \<le> 335"
    by (simp_all add: monthStart_def l_def)
  have "146097 * (y - 1970) - 506 \<le> 400 * DayFromYear y"
    "400 * DayFromYear y \<le> 146097 * (y - 1970) + 589"
    by (rule DayFromYear_bounds)+
  then have "- 719530 \<le> DayFromYear y" "DayFromYear y \<le> 2934360"
    using assms(1,2) by (simp_all add: algebra_simps)
  then show "- 720000 \<le> MakeDay y mn d" "MakeDay y mn d \<le> 3000000"
    using ms assms(5,6) by (simp_all add: md)
qed

lemma TimeClip_MakeDate:
  assumes "- 720000 \<le> dy" "dy \<le> 3000000" "\<bar>tm\<bar> \<le> 2 * msPerDay"
  shows "TimeClip (MakeDate dy tm) = Some (MakeDate dy tm)"
proof -
  have "- 720000 * msPerDay \<le> dy * msPerDay" "dy * msPerDay \<le> 3000000 * msPerDay"
    using assms(1,2) by (simp_all add: msPerDay_def)
  then have "\<bar>dy * msPerDay + tm\<bar> \<le> maxTime"
    using assms(3) by (simp add: msPerDay_def maxTime_def)
  then show ?thesis by (simp add: TimeClip_def MakeDate_def)
qed

lemma Date_parse_value:
  assumes "parseYMD s = Some (y, m, d)"
  shows "Date_parse s = Some (MakeDate (MakeDay y (m - 1) d) 0)"
proof -
  note b = parseYMD_bounds [OF assms]
  have "- 720000 \<le> MakeDay y (m - 1) d" "MakeDay y (m - 1) d \<le> 3000000"
    using b by (intro MakeDay_bounds; simp)+
  then have "TimeClip (MakeDate (MakeDay y (m - 1) d) 0) = Some (MakeDate (MakeDay y (m - 1) d) 0)"
    by (intro TimeClip_MakeDate) (simp_all add: msPerDay_def)
  then show ?thesis by (simp add: Date_parse_def assms)
qed

section \<open>Printing a date and reading it back\<close>



















section \<open>The deadline is today plus the tier's offset\<close>

lemma calculateSLADate_formatDay:
  assumes "\<bar>clock h\<bar> \<le> maxTime - 180 * msPerDay"
  shows "calculateSLADate h score t =
           formatDay (Day (LocalTime h (clock h)) + slaOffsetDays (rc_label (getRiskClass score t)))"
proof -
  have now: "Date_now h = Some (clock h)"
    using slaTarget [OF assms, of 0] by (simp add: Date_now_def)
  have gd: "Date_getDate h (Some (clock h)) = Some (DateFromTime (LocalTime h (clock h)))"
    by (simp add: Date_getDate_def)
  have tgt: "Date_setDate h (Some (clock h))
               (map_option (\<lambda>d. d + k) (Date_getDate h (Some (clock h)))) =
             Some (clock h + k * msPerDay)" if "0 \<le> k" "k \<le> 180" for k
    using slaTarget [OF assms that] by (simp add: gd Date_setDate_shift)
  have loc: "Day (LocalTime h (clock h + k * msPerDay)) = Day (LocalTime h (clock h)) + k" for k
    using Day_shift [of "LocalTime h (clock h)" k] by (simp add: LocalTime_def algebra_simps)
  define k where "k = slaOffsetDays (rc_label (getRiskClass score t))"
  have k: "0 \<le> k" "k \<le> 180"
    by (simp_all add: k_def getRiskClass_label)
  have "calculateSLADate h score t =
          (let targetDate = Some (clock h + k * msPerDay)
           in Number_toString (Date_getFullYear h targetDate) @ ''-'' @
              padStart2 (Number_toString (map_option (\<lambda>m. m + 1) (Date_getMonth h targetDate)))
              @ ''-'' @ padStart2 (Number_toString (Date_getDate h targetDate)))"
    unfolding calculateSLADate_def now Let_def k_def getRiskClass_label
    using tgt [of 30] tgt [of 60] tgt [of 90] tgt [of 180]
    by simp
  also have "\<dots> = formatDay (Day (LocalTime h (clock h + k * msPerDay)))"
    unfolding Let_def by (rule formatDay_of_time)
  finally show ?thesis by (simp add: loc k_def)
qed



section \<open>Threshold resolution returns whatever the unit stores\<close>

lemma push_all: "foldl (\<lambda>acc' u. acc' @ [u]) acc us = acc @ us"
  by (induction us arbitrary: acc) simp_all

lemma getAllUnits_concat: "getAllUnits registries = concat (map units registries)"
proof -
  have "foldl (\<lambda>acc reg. foldl (\<lambda>acc' u. acc' @ [u]) acc (units reg)) acc registries
          = acc @ concat (map units registries)" for acc
    by (induction registries arbitrary: acc) (simp_all add: push_all)
  then show ?thesis by (simp add: getAllUnits_def)
qed

lemma find_first:
  "\<forall>v \<in> set pre. \<not> P v \<Longrightarrow> P u \<Longrightarrow> find P (pre @ u # post) = Some u"
  by (induction pre) simp_all

text \<open>
  C5, as stated, at a unit whose stored thresholds are not descending: the lookup returns
  them, not the default set.
\<close>

theorem getThresholdsForLocation_counterexample:
  "getThresholdsForLocation
     [\<lparr>reg_id = ''reg-1'', reg_name = ''Sicil'',
       units = [\<lparr>unit_id = ''u-1'', unit_name = ''Ek Bina'',
                 unit_thresholds = Some \<lparr>intolerable = 10, substantial = 200,
                                          important = 70, possible = 20\<rparr>\<rparr>],
       isExpanded = True\<rparr>] ''Ek Bina''
   = \<lparr>intolerable = 10, substantial = 200, important = 70, possible = 20\<rparr> \<and>
   \<not> strictlyDescending \<lparr>intolerable = 10, substantial = 200, important = 70, possible = 20\<rparr> \<and>
   \<lparr>intolerable = 10, substantial = 200, important = 70, possible = 20\<rparr> \<noteq> DEFAULT_THRESHOLDS"
  by (simp add: getThresholdsForLocation_def getAllUnits_def strictlyDescending_def
        DEFAULT_THRESHOLDS_def)

text \<open>
  C5 (amended). The lookup always returns: the default set when no unit of any registry
  has the name, and otherwise what the first unit with that name (in registry order)
  stores, or the default set when that unit stores none. The order of the stored
  boundaries is never examined.
\<close>

theorem getThresholdsForLocation_result:
  "((\<forall>u \<in> set (concat (map units registries)). unit_name u \<noteq> locName) \<longrightarrow>
      getThresholdsForLocation registries locName = DEFAULT_THRESHOLDS) \<and>
   (concat (map units registries) = pre @ u # post \<and>
    (\<forall>v \<in> set pre. unit_name v \<noteq> locName) \<and> unit_name u = locName \<longrightarrow>
      getThresholdsForLocation registries locName =
        (case unit_thresholds u of None \<Rightarrow> DEFAULT_THRESHOLDS | Some t \<Rightarrow> t))"
proof (intro conjI impI)
  assume "\<forall>u \<in> set (concat (map units registries)). unit_name u \<noteq> locName"
  then have "find (\<lambda>u. unit_name u = locName) (getAllUnits registries) = None"
    unfolding getAllUnits_concat find_None_iff by blast
  then show "getThresholdsForLocation registries locName = DEFAULT_THRESHOLDS"
    by (simp add: getThresholdsForLocation_def)
next
  assume a: "concat (map units registries) = pre @ u # post \<and>
    (\<forall>v \<in> set pre. unit_name v \<noteq> locName) \<and> unit_name u = locName"
  then have "find (\<lambda>u. unit_name u = locName) (getAllUnits registries) = Some u"
    unfolding getAllUnits_concat using find_first [of pre "\<lambda>u. unit_name u = locName" u post]
    by simp
  then show "getThresholdsForLocation registries locName =
        (case unit_thresholds u of None \<Rightarrow> DEFAULT_THRESHOLDS | Some t \<Rightarrow> t)"
    by (simp add: getThresholdsForLocation_def)
qed

theorem getThresholdsForLocation_result_witness:
  "concat (map units
     [\<lparr>reg_id = ''reg-1'', reg_name = ''Sicil'',
       units = [\<lparr>unit_id = ''u-1'', unit_name = ''Genel Mudurluk'',
                 unit_thresholds = Some \<lparr>intolerable = 300, substantial = 150,
                                          important = 50, possible = 10\<rparr>\<rparr>,
                \<lparr>unit_id = ''u-2'', unit_name = ''Ek Bina'', unit_thresholds = None\<rparr>],
       isExpanded = True\<rparr>])
   = [\<lparr>unit_id = ''u-1'', unit_name = ''Genel Mudurluk'',
       unit_thresholds = Some \<lparr>intolerable = 300, substantial = 150,
                                important = 50, possible = 10\<rparr>\<rparr>]
     @ \<lparr>unit_id = ''u-2'', unit_name = ''Ek Bina'', unit_thresholds = None\<rparr> # [] \<and>
   getThresholdsForLocation
     [\<lparr>reg_id = ''reg-1'', reg_name = ''Sicil'',
       units = [\<lparr>unit_id = ''u-1'', unit_name = ''Genel Mudurluk'',
                 unit_thresholds = Some \<lparr>intolerable = 300, substantial = 150,
                                          important = 50, possible = 10\<rparr>\<rparr>,
                \<lparr>unit_id = ''u-2'', unit_name = ''Ek Bina'', unit_thresholds = None\<rparr>],
       isExpanded = True\<rparr>] ''Ek Bina'' = DEFAULT_THRESHOLDS"
  using getThresholdsForLocation_result
    [where registries =
       "[\<lparr>reg_id = ''reg-1'', reg_name = ''Sicil'',
          units = [\<lparr>unit_id = ''u-1'', unit_name = ''Genel Mudurluk'',
                    unit_thresholds = Some \<lparr>intolerable = 300, substantial = 150,
                                             important = 50, possible = 10\<rparr>\<rparr>,
                   \<lparr>unit_id = ''u-2'', unit_name = ''Ek Bina'', unit_thresholds = None\<rparr>],
          isExpanded = True\<rparr>]"
       and locName = "''Ek Bina''"
       and pre = "[\<lparr>unit_id = ''u-1'', unit_name = ''Genel Mudurluk'',
                     unit_thresholds = Some \<lparr>intolerable = 300, substantial = 150,
                                              important = 50, possible = 10\<rparr>\<rparr>]"
       and u = "\<lparr>unit_id = ''u-2'', unit_name = ''Ek Bina'', unit_thresholds = None\<rparr>"
       and post = "[]"]
  by simp

section \<open>The stored score and the stored factors\<close>

text \<open>
  An upload computes the score from the three factors of the service's answer, each
  replaced by 1 when absent or falsy, and stores it next to those factors; no other update
  of the state writes a factor or the score.
\<close>


lemma or_else_truthy: "truthy d \<Longrightarrow> truthy (or_else x d)"
  by (simp add: or_else_def split: option.splits)

lemma truthy_one: "truthy (JNum (Fin 1))"
  by (simp add: truthy_def)

lemma Number_multiply_Fin: "Number_multiply P (Fin x) (Fin y) = fmul P x y"
  by (simp add: Number_multiply_def)

lemma Number_multiply_NaN: "Number_multiply P NaN b = NaN" "Number_multiply P a NaN = NaN"
  by (simp_all add: Number_multiply_def split: number.splits)

lemma Number_multiply_Inf:
  "y \<noteq> 0 \<Longrightarrow> Number_multiply P PosInf (Fin y) \<noteq> NaN"
  "y \<noteq> 0 \<Longrightarrow> Number_multiply P NegInf (Fin y) \<noteq> NaN"
  by (simp_all add: Number_multiply_def)

lemma newRisk_fields:
  "probability (newRisk P hs loc th rid aid x) = or_else (ai_probability x) (JNum (Fin 1))"
  "frequency (newRisk P hs loc th rid aid x) = or_else (ai_frequency x) (JNum (Fin 1))"
  "severity (newRisk P hs loc th rid aid x) = or_else (ai_severity x) (JNum (Fin 1))"
  "risk_score (newRisk P hs loc th rid aid x) =
     Number_multiply P
       (Number_multiply P (ToNumber P (or_else (ai_probability x) (JNum (Fin 1))))
                          (ToNumber P (or_else (ai_frequency x) (JNum (Fin 1)))))
       (ToNumber P (or_else (ai_severity x) (JNum (Fin 1))))"
  unfolding newRisk_def Let_def by simp_all

lemma newRisk_invariant: "scoreInvariant P (newRisk P hs loc th rid aid x)"
  by (simp add: scoreInvariant_def newRisk_fields recomputedScore_def or_else_truthy truthy_one)

lemma SAMPLE_RISKS_invariant:
  assumes "exactOnSamples P" and "r \<in> set SAMPLE_RISKS"
  shows "scoreInvariant P r"
proof -
  have e: "fmul P 3 6 = Fin 18" "fmul P 18 7 = Fin 126" "fmul P 3 3 = Fin 9"
    "fmul P 9 40 = Fin 360"
    using assms(1) by (simp_all add: exactOnSamples_def)
  have t: "truthy (JNum (Fin 3))" "truthy (JNum (Fin 6))" "truthy (JNum (Fin 7))"
    "truthy (JNum (Fin 40))"
    by (simp_all add: truthy_def)
  from assms(2) consider "r = SAMPLE_RISKS ! 0" | "r = SAMPLE_RISKS ! 1"
    by (auto simp: SAMPLE_RISKS_def)
  then show ?thesis
  proof cases
    case 1
    then show ?thesis
      by (simp add: SAMPLE_RISKS_def scoreInvariant_def recomputedScore_def Number_multiply_Fin e t)
  next
    case 2
    then show ?thesis
      by (simp add: SAMPLE_RISKS_def scoreInvariant_def recomputedScore_def Number_multiply_Fin e t)
  qed
qed

lemma scoreInvariant_frame:
  "scoreInvariant P (r\<lparr>actions := as\<rparr>) = scoreInvariant P r"
  "scoreInvariant P (r\<lparr>status := st\<rparr>) = scoreInvariant P r"
  "scoreInvariant P (r\<lparr>department := d, specific_area := sa\<rparr>) = scoreInvariant P r"
  by (simp_all add: scoreInvariant_def recomputedScore_def)

lemma risksState_invariant:
  assumes "risksState P rs" and "exactOnSamples P" and "r \<in> set rs"
  shows "scoreInvariant P r"
  using assms(1,3)
proof (induction arbitrary: r rule: risksState.induct)
  case initial
  then show ?case using assms(2) by (simp add: SAMPLE_RISKS_invariant)
next
  case (upload rs hs loc th ids res)
  then show ?case
    by (auto simp: handleFileUpload_def newRisk_invariant)
next
  case (delete rs i)
  then show ?case by (auto simp: deleteRisk_def)
next
  case (setStatus rs i st)
  then show ?case
    by (auto simp: updateStatus_def scoreInvariant_frame split: if_splits)
next
  case (add rs new_id i desc due resp)
  then show ?case
    by (auto simp: addAction_def Let_def scoreInvariant_frame split: if_splits)
next
  case (remove rs i a)
  then show ?case
    by (auto simp: deleteAction_def scoreInvariant_frame split: if_splits)
next
  case (toggle rs i a)
  then show ?case
    by (auto simp: toggleAction_def scoreInvariant_frame split: if_splits)
next
  case (setDate rs i a d)
  then show ?case
    by (auto simp: updateActionDate_def scoreInvariant_frame split: if_splits)
next
  case (setResponsible rs i a p)
  then show ?case
    by (auto simp: updateActionResponsible_def scoreInvariant_frame split: if_splits)
next
  case (setLocation rs i dept spec)
  then show ?case
    by (auto simp: updateRiskLocation_def scoreInvariant_frame split: if_splits)
qed

lemma finite_factors_not_NaN:
  assumes "finiteProductsAreNumbers P" and "s \<noteq> 0"
  shows "Number_multiply P (Number_multiply P (Fin p) (Fin f)) (Fin s) \<noteq> NaN"
proof -
  have a: "fmul P x y \<noteq> NaN" for x y
    using assms(1) by (simp add: finiteProductsAreNumbers_def)
  show ?thesis
  proof (cases "fmul P p f")
    case NaN
    then show ?thesis using a [of p f] by simp
  next
    case PosInf
    then show ?thesis using assms(2) by (simp add: Number_multiply_Fin Number_multiply_Inf)
  next
    case NegInf
    then show ?thesis using assms(2) by (simp add: Number_multiply_Fin Number_multiply_Inf)
  next
    case (Fin z)
    then show ?thesis using a [of z s] by (simp add: Number_multiply_Fin)
  qed
qed

lemma hd_upload:
  "hd (handleFileUpload P hs loc th ids [x] prev) = newRisk P (hs 0) loc th (fst (ids 0)) (snd (ids 0)) x"
  "hd (handleFileUpload P hs loc th ids [x] prev) \<in> set (handleFileUpload P hs loc th ids [x] prev)"
  by (simp_all add: handleFileUpload_def)

text \<open>
  The real that stands for the score in the deadline's comparisons compares with every
  boundary as the score does.
\<close>

lemma comparand_comparisons:
  "comparand (Fin x) t = x"
  "comparand PosInf t > intolerable t \<and> comparand PosInf t > substantial t \<and>
   comparand PosInf t > important t \<and> comparand PosInf t > possible t"
  "\<not> comparand NaN t > intolerable t \<and> \<not> comparand NaN t > substantial t \<and>
   \<not> comparand NaN t > important t \<and> \<not> comparand NaN t > possible t"
  "\<not> comparand NegInf t > intolerable t \<and> \<not> comparand NegInf t > substantial t \<and>
   \<not> comparand NegInf t > important t \<and> \<not> comparand NegInf t > possible t"
  by (auto simp add: comparand_def max_def min_def)

text \<open>
  The deadline of the action in the upload with the word: the score is \<open>NaN\<close>, which is
  above no boundary, so the action is due 180 days after 2024-06-01.
\<close>

lemma upload_schedule:
  "map dueDate (actions (hd uploadWithWord)) = [''2024-11-28'']"
proof -
  have s: "StringToNumber examplePlatform ''yuksek'' = NaN"
    by (simp add: examplePlatform_def digitVal_def)
  have c: "comparand NaN DEFAULT_THRESHOLDS = 20"
    by (simp add: comparand_def DEFAULT_THRESHOLDS_def)
  have f: "formatDay 20055 = ''2024-11-28''" by code_simp
  have d: "calculateSLADate \<lparr>clock = 1717200000000, localTZA = 10800000\<rparr> 20 DEFAULT_THRESHOLDS
             = ''2024-11-28''"
    by (subst calculateSLADate_formatDay)
       (simp_all add: maxTime_def msPerDay_def Day_def LocalTime_def getRiskClass_label
          DEFAULT_THRESHOLDS_def f)
  show ?thesis
    unfolding uploadWithWord_def hd_upload(1)
    by (simp add: newRisk_def Let_def or_else_def truthy_def s Number_multiply_NaN c d
          enumerate_eq_zip)
qed

text \<open>
  C8, as stated: the factors of an upload are stored as the service sent them, whatever
  they are. When the probability arrives as the word \<open>yuksek\<close>, the record stores that
  word next to the frequency 6, the severity 7 and the score \<open>NaN\<close>; the score is not
  \<open>===\<close> to the product of the stored factors (nothing is \<open>===\<close> to \<open>NaN\<close>), and the
  record's action is scheduled 180 days ahead.
\<close>

theorem risk_score_product_counterexample:
  "risksState examplePlatform uploadWithWord \<and>
   hd uploadWithWord \<in> set uploadWithWord \<and>
   probability (hd uploadWithWord) = JStr ''yuksek'' \<and>
   frequency (hd uploadWithWord) = JNum (Fin 6) \<and>
   severity (hd uploadWithWord) = JNum (Fin 7) \<and>
   risk_score (hd uploadWithWord) = NaN \<and>
   \<not> Number_equal (risk_score (hd uploadWithWord))
        (recomputedScore examplePlatform (hd uploadWithWord)) \<and>
   map dueDate (actions (hd uploadWithWord)) = [''2024-11-28'']"
proof -
  have a: "risksState examplePlatform uploadWithWord"
    unfolding uploadWithWord_def by (rule risksState.upload [OF risksState.initial])
  have b: "hd uploadWithWord \<in> set uploadWithWord"
    unfolding uploadWithWord_def by (rule hd_upload(2))
  have s: "StringToNumber examplePlatform ''yuksek'' = NaN"
    by (simp add: examplePlatform_def digitVal_def)
  have p: "probability (hd uploadWithWord) = JStr ''yuksek''"
    "frequency (hd uploadWithWord) = JNum (Fin 6)"
    "severity (hd uploadWithWord) = JNum (Fin 7)"
    by (simp_all add: uploadWithWord_def hd_upload(1) newRisk_fields or_else_def truthy_def)
  have r: "risk_score (hd uploadWithWord) = NaN"
    by (simp add: uploadWithWord_def hd_upload(1) newRisk_fields or_else_def truthy_def s
          Number_multiply_NaN)
  show ?thesis using a b p r upload_schedule by (simp add: Number_equal_def)
qed

text \<open>
  C8 (amended). At every platform that multiplies the factors of the sample data exactly,
  every record of every state of the risks list stores as its score the value that
  \<open>probability * frequency * severity\<close> evaluates to on the factors it stores (each
  converted to a number, multiplied left to right by the platform). The comparison
  \<open>risk_score === probability * frequency * severity\<close> holds exactly when the stored
  score is not \<open>NaN\<close>; it holds whenever the three stored factors are finite numbers, at
  a platform where a product of two finite numbers is never \<open>NaN\<close>.
\<close>

theorem risk_score_product:
  assumes "risksState P rs" and "r \<in> set rs" and "exactOnSamples P"
  shows "risk_score r = recomputedScore P r \<and>
         (Number_equal (risk_score r) (recomputedScore P r) \<longleftrightarrow> risk_score r \<noteq> NaN) \<and>
         (finiteProductsAreNumbers P \<and>
          (\<exists>p f s. probability r = JNum (Fin p) \<and> frequency r = JNum (Fin f) \<and>
                   severity r = JNum (Fin s)) \<longrightarrow>
          Number_equal (risk_score r) (recomputedScore P r))"
proof -
  note i = risksState_invariant [OF assms(1,3,2), unfolded scoreInvariant_def]
  have e: "risk_score r = recomputedScore P r" using i by simp
  have n: "Number_equal (risk_score r) (recomputedScore P r) \<longleftrightarrow> risk_score r \<noteq> NaN"
    by (simp add: Number_equal_def e)
  have "risk_score r \<noteq> NaN"
    if w: "finiteProductsAreNumbers P"
      and f: "probability r = JNum (Fin p)" "frequency r = JNum (Fin f)" "severity r = JNum (Fin s)"
    for p f s
  proof -
    have "s \<noteq> 0" using i f(3) by (simp add: truthy_def)
    then show ?thesis
      using finite_factors_not_NaN [OF w, of s p f] by (simp add: e recomputedScore_def f)
  qed
  then show ?thesis using e n by blast
qed

theorem risk_score_product_witness:
  "risksState examplePlatform uploadWithNumbers \<and>
   hd uploadWithNumbers \<in> set uploadWithNumbers \<and>
   exactOnSamples examplePlatform \<and> finiteProductsAreNumbers examplePlatform \<and>
   probability (hd uploadWithNumbers) = JNum (Fin (1 / 2)) \<and>
   frequency (hd uploadWithNumbers) = JNum (Fin 6) \<and>
   severity (hd uploadWithNumbers) = JNum (Fin 15) \<and>
   risk_score (hd uploadWithNumbers) = Fin 45 \<and>
   Number_equal (risk_score (hd uploadWithNumbers))
     (recomputedScore examplePlatform (hd uploadWithNumbers))"
proof -
  have a: "risksState examplePlatform uploadWithNumbers"
    unfolding uploadWithNumbers_def by (rule risksState.upload [OF risksState.initial])
  have b: "hd uploadWithNumbers \<in> set uploadWithNumbers"
    unfolding uploadWithNumbers_def by (rule hd_upload(2))
  have c: "exactOnSamples examplePlatform"
    by (simp add: exactOnSamples_def examplePlatform_def)
  have d: "finiteProductsAreNumbers examplePlatform"
    by (simp add: finiteProductsAreNumbers_def examplePlatform_def)
  have f: "probability (hd uploadWithNumbers) = JNum (Fin (1 / 2))"
    "frequency (hd uploadWithNumbers) = JNum (Fin 6)"
    "severity (hd uploadWithNumbers) = JNum (Fin 15)"
    by (simp_all add: uploadWithNumbers_def hd_upload(1) newRisk_fields or_else_def truthy_def)
  have g: "recomputedScore examplePlatform (hd uploadWithNumbers) = Fin 45"
    by (simp add: recomputedScore_def f Number_multiply_Fin examplePlatform_def)
  note t = risk_score_product [OF a b c]
  have "risk_score (hd uploadWithNumbers) = Fin 45"
    using t [THEN conjunct1] g by simp
  moreover have "Number_equal (risk_score (hd uploadWithNumbers))
     (recomputedScore examplePlatform (hd uploadWithNumbers))"
    using t [THEN conjunct2, THEN conjunct2] d f by blast
  ultimately show ?thesis using a b c d f by simp
qed

section \<open>What the results depend on\<close>

text \<open>
  The overdue filter passes over a completed action and over an action without a due date
  without a reading, and takes one reading for every other action.
\<close>

lemma overdueFilter_run_skip:
  "isCompleted a \<or> dueDate a = [] \<Longrightarrow>
   overdueFilter_run tz rd n (a # as) = overdueFilter_run tz rd n as"
  by (auto simp: isOverdue_run_def isOverdue_def split_beta)

lemma overdueFilter_run_read:
  "\<not> isCompleted a \<Longrightarrow> dueDate a \<noteq> [] \<Longrightarrow>
   overdueFilter_run tz rd n (a # as) =
     (if isOverdue (hostAt tz rd n) (dueDate a)
      then a # fst (overdueFilter_run tz rd (Suc n) as)
      else fst (overdueFilter_run tz rd (Suc n) as),
      snd (overdueFilter_run tz rd (Suc n) as))"
  by (simp add: isOverdue_run_def split_beta)

lemma overdueFilter_run_snd:
  "snd (overdueFilter_run tz rd n as) =
     n + length (filter (\<lambda>a. \<not> isCompleted a \<and> dueDate a \<noteq> []) as)"
proof (induction as arbitrary: n)
  case Nil
  then show ?case by simp
next
  case (Cons a as)
  show ?case
  proof (cases "isCompleted a \<or> dueDate a = []")
    case True
    then show ?thesis
      using Cons.IH [of n] by (auto simp only: overdueFilter_run_skip [OF True]) auto
  next
    case False
    then show ?thesis
      using Cons.IH [of "Suc n"]
      by (simp add: overdueFilter_run_read del: overdueFilter_run.simps)
  qed
qed

text \<open>
  The filter's result is the same in two sessions that agree on the readings it takes, and
  when all of them are one instant it is the filter at that instant.
\<close>

lemma overdueFilter_run_agree:
  assumes "\<forall>k. n \<le> k \<and> k < n + length (filter (\<lambda>a. \<not> isCompleted a \<and> dueDate a \<noteq> []) as)
             \<longrightarrow> rd1 k = rd2 k"
  shows "overdueFilter_run tz rd1 n as = overdueFilter_run tz rd2 n as"
  using assms
proof (induction as arbitrary: n)
  case Nil
  then show ?case by simp
next
  case (Cons a as)
  show ?case
  proof (cases "isCompleted a \<or> dueDate a = []")
    case True
    have "overdueFilter_run tz rd1 n as = overdueFilter_run tz rd2 n as"
      using Cons.prems True by (intro Cons.IH) auto
    then show ?thesis by (simp only: overdueFilter_run_skip [OF True])
  next
    case False
    then have r: "rd1 n = rd2 n" using Cons.prems by simp
    then have h: "hostAt tz rd1 n = hostAt tz rd2 n" by (simp add: hostAt_def)
    have "overdueFilter_run tz rd1 (Suc n) as = overdueFilter_run tz rd2 (Suc n) as"
      using Cons.prems False by (intro Cons.IH) auto
    then show ?thesis
      using False by (simp add: overdueFilter_run_read h del: overdueFilter_run.simps)
  qed
qed

lemma overdueFilter_run_frozen:
  assumes "\<forall>k. n \<le> k \<and> k < n + length (filter (\<lambda>a. \<not> isCompleted a \<and> dueDate a \<noteq> []) as)
             \<longrightarrow> rd k = c"
  shows "fst (overdueFilter_run tz rd n as) =
           filter (\<lambda>a. \<not> isCompleted a \<and> isOverdue \<lparr>clock = c, localTZA = tz\<rparr> (dueDate a)) as"
  using assms
proof (induction as arbitrary: n)
  case Nil
  then show ?case by simp
next
  case (Cons a as)
  show ?case
  proof (cases "isCompleted a \<or> dueDate a = []")
    case True
    have n: "\<not> (\<not> isCompleted a \<and> isOverdue \<lparr>clock = c, localTZA = tz\<rparr> (dueDate a))"
      using True by (auto simp: isOverdue_def)
    have "fst (overdueFilter_run tz rd n as) =
           filter (\<lambda>a. \<not> isCompleted a \<and> isOverdue \<lparr>clock = c, localTZA = tz\<rparr> (dueDate a)) as"
      using Cons.prems True by (intro Cons.IH) auto
    then show ?thesis using n by (simp add: overdueFilter_run_skip [OF True] del: overdueFilter_run.simps)
  next
    case False
    then have r: "rd n = c" using Cons.prems by simp
    then have h: "hostAt tz rd n = \<lparr>clock = c, localTZA = tz\<rparr>" by (simp add: hostAt_def)
    have "fst (overdueFilter_run tz rd (Suc n) as) =
           filter (\<lambda>a. \<not> isCompleted a \<and> isOverdue \<lparr>clock = c, localTZA = tz\<rparr> (dueDate a)) as"
      using Cons.prems False by (intro Cons.IH) auto
    then show ?thesis
      using False by (simp add: overdueFilter_run_read h del: overdueFilter_run.simps)
  qed
qed

text \<open>The same for the whole \<open>reduce\<close>, from any count and position.\<close>

lemma overdue_step:
  "(\<lambda>(count, k) risk.
       (let (xs, k') = overdueFilter_run tz rd k (actions risk) in (count + length xs, k')))
     (cnt, n) r =
   (cnt + length (fst (overdueFilter_run tz rd n (actions r))),
    n + length (filter (\<lambda>a. \<not> isCompleted a \<and> dueDate a \<noteq> []) (actions r)))"
  using overdueFilter_run_snd [of tz rd n "actions r"] by (simp add: split_beta)

lemma overdue_fold_snd:
  "snd (foldl (\<lambda>(count, k) risk.
                 (let (xs, k') = overdueFilter_run tz rd k (actions risk)
                  in (count + length xs, k'))) (cnt, n) rs) = n + overdueReads rs"
proof (induction rs arbitrary: cnt n)
  case Nil
  then show ?case by (simp add: overdueReads_def)
next
  case (Cons r rs)
  show ?case
    unfolding foldl_Cons overdue_step using Cons.IH by (simp add: overdueReads_def)
qed

lemma overdue_fold_agree:
  assumes "\<forall>k. n \<le> k \<and> k < n + overdueReads rs \<longrightarrow> rd1 k = rd2 k"
  shows "foldl (\<lambda>(count, k) risk.
                 (let (xs, k') = overdueFilter_run tz rd1 k (actions risk)
                  in (count + length xs, k'))) (cnt, n) rs =
         foldl (\<lambda>(count, k) risk.
                 (let (xs, k') = overdueFilter_run tz rd2 k (actions risk)
                  in (count + length xs, k'))) (cnt, n) rs"
  using assms
proof (induction rs arbitrary: cnt n)
  case Nil
  then show ?case by simp
next
  case (Cons r rs)
  define m where "m = length (filter (\<lambda>a. \<not> isCompleted a \<and> dueDate a \<noteq> []) (actions r))"
  have t: "overdueReads (r # rs) = m + overdueReads rs" by (simp add: overdueReads_def m_def)
  have f: "overdueFilter_run tz rd1 n (actions r) = overdueFilter_run tz rd2 n (actions r)"
    using Cons.prems unfolding t m_def by (intro overdueFilter_run_agree) auto
  have "\<forall>k. n + m \<le> k \<and> k < n + m + overdueReads rs \<longrightarrow> rd1 k = rd2 k"
    using Cons.prems unfolding t by auto
  then show ?case
    unfolding foldl_Cons overdue_step f m_def [symmetric] by (rule Cons.IH)
qed

lemma overdue_fold_frozen:
  assumes "\<forall>k. n \<le> k \<and> k < n + overdueReads rs \<longrightarrow> rd k = c"
  shows "fst (foldl (\<lambda>(count, k) risk.
                 (let (xs, k') = overdueFilter_run tz rd k (actions risk)
                  in (count + length xs, k'))) (cnt, n) rs) =
         cnt + overdueActionsCount \<lparr>clock = c, localTZA = tz\<rparr> rs"
  using assms
proof (induction rs arbitrary: cnt n)
  case Nil
  then show ?case by (simp add: overdueActionsCount_sum)
next
  case (Cons r rs)
  define m where "m = length (filter (\<lambda>a. \<not> isCompleted a \<and> dueDate a \<noteq> []) (actions r))"
  have t: "overdueReads (r # rs) = m + overdueReads rs" by (simp add: overdueReads_def m_def)
  have f: "fst (overdueFilter_run tz rd n (actions r)) =
      filter (\<lambda>a. \<not> isCompleted a \<and> isOverdue \<lparr>clock = c, localTZA = tz\<rparr> (dueDate a)) (actions r)"
    using Cons.prems unfolding t m_def by (intro overdueFilter_run_frozen) auto
  have "\<forall>k. n + m \<le> k \<and> k < n + m + overdueReads rs \<longrightarrow> rd k = c"
    using Cons.prems unfolding t by auto
  then have "fst (foldl (\<lambda>(count, k) risk.
                 (let (xs, k') = overdueFilter_run tz rd k (actions risk)
                  in (count + length xs, k')))
               (cnt + length (filter (\<lambda>a. \<not> isCompleted a \<and>
                                isOverdue \<lparr>clock = c, localTZA = tz\<rparr> (dueDate a)) (actions r)),
                n + m) rs) =
         cnt + length (filter (\<lambda>a. \<not> isCompleted a \<and>
                                isOverdue \<lparr>clock = c, localTZA = tz\<rparr> (dueDate a)) (actions r))
           + overdueActionsCount \<lparr>clock = c, localTZA = tz\<rparr> rs"
    by (rule Cons.IH)
  then show ?case
    unfolding foldl_Cons overdue_step f m_def [symmetric]
    by (simp only: overdueActionsCount_sum list.map sum_list.Cons add.assoc)
qed

text \<open>
  Results that change with the reading and with the zone: the deadline for the score 126
  on 2024-05-20 10:00 UTC and a day later, three and fourteen hours east of UTC; the
  validity of a health check of 2023-06-01 on two consecutive days, and of a training of
  2023-03-01 five hours west and three hours east of UTC; the overdue test for 2024-05-21
  a day before and a day after, and for 2024-01-01 at 17:00 UTC of that day west and east.
\<close>

lemma calculateSLADate_at:
  assumes "\<bar>c\<bar> \<le> maxTime - 180 * msPerDay"
  shows "calculateSLADate \<lparr>clock = c, localTZA = z\<rparr> 126 DEFAULT_THRESHOLDS
           = formatDay ((c + z) div msPerDay + 60)"
  using calculateSLADate_formatDay [of "\<lparr>clock = c, localTZA = z\<rparr>" 126 DEFAULT_THRESHOLDS] assms
  by (simp add: Day_def LocalTime_def getRiskClass_label DEFAULT_THRESHOLDS_def)

lemma deadline_changes:
  "calculateSLADate \<lparr>clock = 1716199200000, localTZA = 10800000\<rparr> 126 DEFAULT_THRESHOLDS
     = ''2024-07-19''"
  "calculateSLADate \<lparr>clock = 1716285600000, localTZA = 10800000\<rparr> 126 DEFAULT_THRESHOLDS
     = ''2024-07-20''"
  "calculateSLADate \<lparr>clock = 1716199200000, localTZA = 50400000\<rparr> 126 DEFAULT_THRESHOLDS
     = ''2024-07-20''"
proof -
  have f: "formatDay 19923 = ''2024-07-19''" "formatDay 19924 = ''2024-07-20''"
    by code_simp+
  show "calculateSLADate \<lparr>clock = 1716199200000, localTZA = 10800000\<rparr> 126 DEFAULT_THRESHOLDS
     = ''2024-07-19''"
    by (subst calculateSLADate_at) (simp_all add: maxTime_def msPerDay_def f)
  show "calculateSLADate \<lparr>clock = 1716285600000, localTZA = 10800000\<rparr> 126 DEFAULT_THRESHOLDS
     = ''2024-07-20''"
    by (subst calculateSLADate_at) (simp_all add: maxTime_def msPerDay_def f)
  show "calculateSLADate \<lparr>clock = 1716199200000, localTZA = 50400000\<rparr> 126 DEFAULT_THRESHOLDS
     = ''2024-07-20''"
    by (subst calculateSLADate_at) (simp_all add: maxTime_def msPerDay_def f)
qed

lemma validity_and_overdue_change:
  "v_days (calculateValidity \<lparr>clock = 1685664000000, localTZA = 10800000\<rparr>
             ''2023-06-01'' Az_Tehlikeli health) = Some 1826"
  "v_days (calculateValidity \<lparr>clock = 1685750400000, localTZA = 10800000\<rparr>
             ''2023-06-01'' Az_Tehlikeli health) = Some 1825"
  "v_status (calculateValidity \<lparr>clock = 1704067200000, localTZA = - 18000000\<rparr>
               ''2023-03-01'' Cok_Tehlikeli training) = warning"
  "v_status (calculateValidity \<lparr>clock = 1704067200000, localTZA = 10800000\<rparr>
               ''2023-03-01'' Cok_Tehlikeli training) = valid"
  "\<not> isOverdue \<lparr>clock = 1716199200000, localTZA = 10800000\<rparr> ''2024-05-21''"
  "isOverdue \<lparr>clock = 1716372000000, localTZA = 10800000\<rparr> ''2024-05-21''"
  "isOverdue \<lparr>clock = 1704128400000, localTZA = - 18000000\<rparr> ''2024-01-01''"
  "\<not> isOverdue \<lparr>clock = 1704128400000, localTZA = 10800000\<rparr> ''2024-01-01''"
  by code_simp+

text \<open>
  One evaluation of the overdue count can see the clock pass the end of a due day between
  two of its readings: of two open actions due the same day it then counts one, which it
  does at no single instant.
\<close>

lemma overdue_count_between_readings:
  "fst (overdueActionsCount_run 10800000 aroundMidnight 0 twoDueTheSameDay) = 1"
  "overdueActionsCount \<lparr>clock = c, localTZA = 10800000\<rparr> twoDueTheSameDay \<noteq> 1"
proof -
  show "fst (overdueActionsCount_run 10800000 aroundMidnight 0 twoDueTheSameDay) = 1"
    by code_simp
  show "overdueActionsCount \<lparr>clock = c, localTZA = 10800000\<rparr> twoDueTheSameDay \<noteq> 1"
    by (simp add: overdueActionsCount_sum twoDueTheSameDay_def)
qed

text \<open>
  C1, as stated: none of the source functions takes \<open>now\<close> as an argument; they read the
  clock themselves. Two calls of \<open>isOverdue\<close> with the same argument, at two readings of
  the clock, give different results.
\<close>

theorem implicit_clock_counterexample:
  "isOverdue \<lparr>clock = 1717200000000, localTZA = 10800000\<rparr> ''2024-01-01'' \<and>
   \<not> isOverdue \<lparr>clock = 1700000000000, localTZA = 10800000\<rparr> ''2024-01-01''"
  by code_simp

text \<open>
  C1 (amended). The source functions take no \<open>now\<close>: each reads the clock and the local
  zone itself. \<open>calculateSLADate\<close> takes one reading in every call; \<open>calculateValidity\<close>
  and \<open>isOverdue\<close> take none on an empty date and one otherwise; \<open>getRiskClass\<close> takes
  none, and its result is the same at any readings and in any zone. Two calls of one of
  the three functions with the same arguments in the same zone whose readings are equal
  give the same result. One evaluation of the overdue count takes one reading for every
  action that is not completed and has a due date; two evaluations in the same zone on the
  same list whose readings agree give the same count, and when all its readings are one
  instant the count is that of \<open>overdueActionsCount\<close> at that instant. The results do
  depend on both: for each of the three functions there are arguments at which the result
  changes with the reading in one zone, and arguments at which it changes with the zone
  at one reading.
\<close>

theorem results_follow_clock_readings_and_zone:
  "(rd1 n1 = rd2 n2 \<longrightarrow>
      fst (calculateSLADate_run tz rd1 n1 score t) = fst (calculateSLADate_run tz rd2 n2 score t) \<and>
      fst (calculateValidity_run tz rd1 n1 dateStr hazardClass type)
        = fst (calculateValidity_run tz rd2 n2 dateStr hazardClass type) \<and>
      fst (isOverdue_run tz rd1 n1 dateStr) = fst (isOverdue_run tz rd2 n2 dateStr)) \<and>
   snd (calculateSLADate_run tz rd1 n1 score t) = n1 + 1 \<and>
   snd (calculateValidity_run tz rd1 n1 dateStr hazardClass type)
     = (if dateStr = [] then n1 else n1 + 1) \<and>
   snd (isOverdue_run tz rd1 n1 dateStr) = (if dateStr = [] then n1 else n1 + 1) \<and>
   snd (getRiskClass_run tz rd1 n1 score t) = n1 \<and>
   fst (getRiskClass_run tz rd1 n1 score t) = fst (getRiskClass_run tz' rd2 n2 score t) \<and>
   snd (overdueActionsCount_run tz rd1 n1 rs) = n1 + overdueReads rs \<and>
   ((\<forall>k. n1 \<le> k \<and> k < n1 + overdueReads rs \<longrightarrow> rd1 k = rd2 k) \<longrightarrow>
      overdueActionsCount_run tz rd1 n1 rs = overdueActionsCount_run tz rd2 n1 rs) \<and>
   ((\<forall>k. n1 \<le> k \<and> k < n1 + overdueReads rs \<longrightarrow> rd1 k = c) \<longrightarrow>
      fst (overdueActionsCount_run tz rd1 n1 rs)
        = overdueActionsCount \<lparr>clock = c, localTZA = tz\<rparr> rs) \<and>
   calculateSLADate \<lparr>clock = 1716199200000, localTZA = 10800000\<rparr> 126 DEFAULT_THRESHOLDS
     \<noteq> calculateSLADate \<lparr>clock = 1716285600000, localTZA = 10800000\<rparr> 126 DEFAULT_THRESHOLDS \<and>
   calculateSLADate \<lparr>clock = 1716199200000, localTZA = 10800000\<rparr> 126 DEFAULT_THRESHOLDS
     \<noteq> calculateSLADate \<lparr>clock = 1716199200000, localTZA = 50400000\<rparr> 126 DEFAULT_THRESHOLDS \<and>
   calculateValidity \<lparr>clock = 1685664000000, localTZA = 10800000\<rparr> ''2023-06-01'' Az_Tehlikeli health
     \<noteq> calculateValidity \<lparr>clock = 1685750400000, localTZA = 10800000\<rparr> ''2023-06-01''
          Az_Tehlikeli health \<and>
   calculateValidity \<lparr>clock = 1704067200000, localTZA = - 18000000\<rparr> ''2023-03-01''
       Cok_Tehlikeli training
     \<noteq> calculateValidity \<lparr>clock = 1704067200000, localTZA = 10800000\<rparr> ''2023-03-01''
          Cok_Tehlikeli training \<and>
   isOverdue \<lparr>clock = 1716199200000, localTZA = 10800000\<rparr> ''2024-05-21''
     \<noteq> isOverdue \<lparr>clock = 1716372000000, localTZA = 10800000\<rparr> ''2024-05-21'' \<and>
   isOverdue \<lparr>clock = 1704128400000, localTZA = - 18000000\<rparr> ''2024-01-01''
     \<noteq> isOverdue \<lparr>clock = 1704128400000, localTZA = 10800000\<rparr> ''2024-01-01''"
proof -
  have a: "rd1 n1 = rd2 n2 \<Longrightarrow> hostAt tz rd1 n1 = hostAt tz rd2 n2"
    by (simp add: hostAt_def)
  have single: "rd1 n1 = rd2 n2 \<longrightarrow>
      fst (calculateSLADate_run tz rd1 n1 score t) = fst (calculateSLADate_run tz rd2 n2 score t) \<and>
      fst (calculateValidity_run tz rd1 n1 dateStr hazardClass type)
        = fst (calculateValidity_run tz rd2 n2 dateStr hazardClass type) \<and>
      fst (isOverdue_run tz rd1 n1 dateStr) = fst (isOverdue_run tz rd2 n2 dateStr)"
    using a by (simp add: calculateSLADate_run_def calculateValidity_run_def isOverdue_run_def)
  have reads: "snd (calculateSLADate_run tz rd1 n1 score t) = n1 + 1"
    "snd (calculateValidity_run tz rd1 n1 dateStr hazardClass type)
       = (if dateStr = [] then n1 else n1 + 1)"
    "snd (isOverdue_run tz rd1 n1 dateStr) = (if dateStr = [] then n1 else n1 + 1)"
    by (simp_all add: calculateSLADate_run_def calculateValidity_run_def isOverdue_run_def)
  have cr: "snd (overdueActionsCount_run tz rd1 n1 rs) = n1 + overdueReads rs"
    unfolding overdueActionsCount_run_def by (rule overdue_fold_snd)
  have ca: "(\<forall>k. n1 \<le> k \<and> k < n1 + overdueReads rs \<longrightarrow> rd1 k = rd2 k) \<longrightarrow>
      overdueActionsCount_run tz rd1 n1 rs = overdueActionsCount_run tz rd2 n1 rs"
    unfolding overdueActionsCount_run_def using overdue_fold_agree by blast
  have cf: "(\<forall>k. n1 \<le> k \<and> k < n1 + overdueReads rs \<longrightarrow> rd1 k = c) \<longrightarrow>
      fst (overdueActionsCount_run tz rd1 n1 rs)
        = overdueActionsCount \<lparr>clock = c, localTZA = tz\<rparr> rs"
    unfolding overdueActionsCount_run_def
    using overdue_fold_frozen [of n1 rs rd1 c tz 0] by simp
  have g: "snd (getRiskClass_run tz rd1 n1 score t) = n1"
    "fst (getRiskClass_run tz rd1 n1 score t) = fst (getRiskClass_run tz' rd2 n2 score t)"
    by (simp_all add: getRiskClass_run_def)
  have d1: "calculateSLADate \<lparr>clock = 1716199200000, localTZA = 10800000\<rparr> 126 DEFAULT_THRESHOLDS
     \<noteq> calculateSLADate \<lparr>clock = 1716285600000, localTZA = 10800000\<rparr> 126 DEFAULT_THRESHOLDS"
    unfolding deadline_changes(1,2) by simp
  have d2: "calculateSLADate \<lparr>clock = 1716199200000, localTZA = 10800000\<rparr> 126 DEFAULT_THRESHOLDS
     \<noteq> calculateSLADate \<lparr>clock = 1716199200000, localTZA = 50400000\<rparr> 126 DEFAULT_THRESHOLDS"
    unfolding deadline_changes(1,3) by simp
  have d3: "calculateValidity \<lparr>clock = 1685664000000, localTZA = 10800000\<rparr> ''2023-06-01''
             Az_Tehlikeli health
     \<noteq> calculateValidity \<lparr>clock = 1685750400000, localTZA = 10800000\<rparr> ''2023-06-01''
          Az_Tehlikeli health"
  proof
    assume "calculateValidity \<lparr>clock = 1685664000000, localTZA = 10800000\<rparr> ''2023-06-01''
             Az_Tehlikeli health
     = calculateValidity \<lparr>clock = 1685750400000, localTZA = 10800000\<rparr> ''2023-06-01''
          Az_Tehlikeli health"
    then have "v_days (calculateValidity \<lparr>clock = 1685664000000, localTZA = 10800000\<rparr>
                 ''2023-06-01'' Az_Tehlikeli health)
       = v_days (calculateValidity \<lparr>clock = 1685750400000, localTZA = 10800000\<rparr> ''2023-06-01''
          Az_Tehlikeli health)"
      by (rule arg_cong)
    then show False unfolding validity_and_overdue_change(1,2) by simp
  qed
  have d4: "calculateValidity \<lparr>clock = 1704067200000, localTZA = - 18000000\<rparr> ''2023-03-01''
       Cok_Tehlikeli training
     \<noteq> calculateValidity \<lparr>clock = 1704067200000, localTZA = 10800000\<rparr> ''2023-03-01''
          Cok_Tehlikeli training"
  proof
    assume "calculateValidity \<lparr>clock = 1704067200000, localTZA = - 18000000\<rparr> ''2023-03-01''
       Cok_Tehlikeli training
     = calculateValidity \<lparr>clock = 1704067200000, localTZA = 10800000\<rparr> ''2023-03-01''
          Cok_Tehlikeli training"
    then have "v_status (calculateValidity \<lparr>clock = 1704067200000, localTZA = - 18000000\<rparr>
                 ''2023-03-01'' Cok_Tehlikeli training)
       = v_status (calculateValidity \<lparr>clock = 1704067200000, localTZA = 10800000\<rparr> ''2023-03-01''
          Cok_Tehlikeli training)"
      by (rule arg_cong)
    then show False unfolding validity_and_overdue_change(3,4) by simp
  qed
  have d5: "isOverdue \<lparr>clock = 1716199200000, localTZA = 10800000\<rparr> ''2024-05-21''
     \<noteq> isOverdue \<lparr>clock = 1716372000000, localTZA = 10800000\<rparr> ''2024-05-21''"
    using validity_and_overdue_change(5,6) by blast
  have d6: "isOverdue \<lparr>clock = 1704128400000, localTZA = - 18000000\<rparr> ''2024-01-01''
     \<noteq> isOverdue \<lparr>clock = 1704128400000, localTZA = 10800000\<rparr> ''2024-01-01''"
    using validity_and_overdue_change(7,8) by blast
  note all = single reads g cr ca cf d1 d2 d3 d4 d5 d6
  show ?thesis by (intro conjI all)
qed

theorem results_follow_clock_readings_and_zone_witness:
  "sessionA 0 = sessionB 5 \<and>
   fst (calculateSLADate_run 10800000 sessionA 0 126 DEFAULT_THRESHOLDS)
     = fst (calculateSLADate_run 10800000 sessionB 5 126 DEFAULT_THRESHOLDS) \<and>
   fst (isOverdue_run 10800000 sessionA 0 ''2024-05-21'')
     = fst (isOverdue_run 10800000 sessionB 5 ''2024-05-21'') \<and>
   snd (isOverdue_run 10800000 sessionA 0 ''2024-05-21'') = 1 \<and>
   overdueReads SAMPLE_RISKS = 2 \<and>
   sessionA 0 = sessionB 0 \<and> sessionA 1 = sessionB 1 \<and> sessionA 2 \<noteq> sessionB 2 \<and>
   overdueActionsCount_run 10800000 sessionA 0 SAMPLE_RISKS
     = overdueActionsCount_run 10800000 sessionB 0 SAMPLE_RISKS \<and>
   overdueActionsCount \<lparr>clock = 1716372000000, localTZA = 10800000\<rparr> SAMPLE_RISKS = 1 \<and>
   overdueActionsCount_run 10800000 sessionA 0 SAMPLE_RISKS = (1, 2)"
proof -
  note t = results_follow_clock_readings_and_zone
    [where ?rd1.0 = sessionA and ?rd2.0 = sessionB and ?n1.0 = 0 and ?n2.0 = 5
       and tz = 10800000 and score = 126 and t = DEFAULT_THRESHOLDS
       and dateStr = "''2024-05-21''" and rs = SAMPLE_RISKS and c = 1716372000000]
  have r: "overdueReads SAMPLE_RISKS = 2"
    by (simp add: overdueReads_def SAMPLE_RISKS_def)
  have s: "sessionA 0 = sessionB 5" "sessionA 0 = sessionB 0" "sessionA 1 = sessionB 1"
    "sessionA 2 \<noteq> sessionB 2"
    by (simp_all add: sessionA_def sessionB_def)
  have q: "\<forall>k. 0 \<le> k \<and> k < 0 + overdueReads SAMPLE_RISKS \<longrightarrow> sessionA k = sessionB k"
    "\<forall>k. 0 \<le> k \<and> k < 0 + overdueReads SAMPLE_RISKS \<longrightarrow> sessionA k = 1716372000000"
    by (simp_all add: r sessionA_def sessionB_def)
  have v: "overdueActionsCount \<lparr>clock = 1716372000000, localTZA = 10800000\<rparr> SAMPLE_RISKS = 1"
    by code_simp
  have a: "fst (calculateSLADate_run 10800000 sessionA 0 126 DEFAULT_THRESHOLDS)
     = fst (calculateSLADate_run 10800000 sessionB 5 126 DEFAULT_THRESHOLDS)"
    "fst (isOverdue_run 10800000 sessionA 0 ''2024-05-21'')
     = fst (isOverdue_run 10800000 sessionB 5 ''2024-05-21'')"
    using t [THEN conjunct1] s(1) by simp_all
  have b: "snd (isOverdue_run 10800000 sessionA 0 ''2024-05-21'') = 1"
    using t [THEN conjunct2, THEN conjunct2, THEN conjunct2, THEN conjunct1] by simp
  note u = t [THEN conjunct2, THEN conjunct2, THEN conjunct2, THEN conjunct2,
              THEN conjunct2, THEN conjunct2]
  have n: "snd (overdueActionsCount_run 10800000 sessionA 0 SAMPLE_RISKS) = 2"
    using u [THEN conjunct1] r by simp
  have e: "overdueActionsCount_run 10800000 sessionA 0 SAMPLE_RISKS
     = overdueActionsCount_run 10800000 sessionB 0 SAMPLE_RISKS"
    using u [THEN conjunct2, THEN conjunct1] q(1) by blast
  have f: "fst (overdueActionsCount_run 10800000 sessionA 0 SAMPLE_RISKS) = 1"
    using u [THEN conjunct2, THEN conjunct2, THEN conjunct1] q(2) v by simp
  have p: "overdueActionsCount_run 10800000 sessionA 0 SAMPLE_RISKS = (1, 2)"
    using n f by (simp add: prod_eq_iff)
  show ?thesis by (intro conjI s a b r e v p)
qed

section \<open>Validity: what holds at every host\<close>

text \<open>
  For a non-empty date string, the years added are those of the specification's table,
  the day count is the ceiling of the difference to the clock in days, and the status is
  \<open>expired\<close> below 0, \<open>warning\<close> from 0 to 59 and \<open>valid\<close> from 60 on. A string that is
  not a date gives \<open>NaN\<close> days and the status \<open>valid\<close>. The due date here is the one the
  \<open>Date\<close> arithmetic of the source produces at the host.
\<close>

lemma ceilDays_ceiling:
  "ceilDays (Some x) = Some \<lceil>real_of_int x / real_of_int msPerDay\<rceil>"
proof -
  have "\<lceil>real_of_int x / real_of_int msPerDay\<rceil> = - (- x div msPerDay)"
    by (rule ceiling_divide_eq_div)
  then show ?thesis by (simp add: ceilDays_def msPerDay_def)
qed

lemma yearsToAdd_table:
  "(if type = training then
      (if hazardClass = Cok_Tehlikeli then 1 else if hazardClass = Tehlikeli then 2 else 3)
    else
      (if hazardClass = Cok_Tehlikeli then 1 else if hazardClass = Tehlikeli then 3 else (5::int)))
   = validityYears hazardClass type"
  by (cases hazardClass; cases type) simp_all


lemma ceilDays_spec: "ceilDays (js_minus (Some d) (Some c)) = Some (daysRemainingSpec d c)"
  by (simp add: js_minus_def ceilDays_ceiling daysRemainingSpec_def)

lemma calculateValidity_classification:
  assumes "dateStr \<noteq> []" and "\<bar>clock h\<bar> \<le> maxTime"
  shows
    "(let date = Date_parse dateStr;
          due = Date_setFullYear h date
                  (map_option (\<lambda>y. y + validityYears hazardClass type) (Date_getFullYear h date));
          r = calculateValidity h dateStr hazardClass type
      in case due of
           None \<Rightarrow> v_days r = None \<and> v_status r = valid
         | Some d \<Rightarrow>
             v_days r = Some (daysRemainingSpec d (clock h)) \<and>
             v_status r = statusSpec (daysRemainingSpec d (clock h)))"
proof -
  define due where
    "due = Date_setFullYear h (Date_parse dateStr)
             (map_option (\<lambda>y. y + validityYears hazardClass type)
                (Date_getFullYear h (Date_parse dateStr)))"
  define diffDays where "diffDays = ceilDays (js_minus due (Some (clock h)))"
  have now: "Date_now h = Some (clock h)"
    using assms(2) by (simp add: Date_now_def TimeClip_def)
  have cv: "calculateValidity h dateStr hazardClass type =
      (if js_less diffDays (Some 0) then
         \<lparr>v_status = expired, v_label = Suresi_Doldu,
          v_color = ''text-red-500 bg-red-900/20'', v_days = diffDays\<rparr>
       else if js_less diffDays (Some 60) then
         \<lparr>v_status = warning, v_label = Gun_Kaldi (Number_toString diffDays),
          v_color = ''text-orange-500 bg-orange-900/20'', v_days = diffDays\<rparr>
       else
         \<lparr>v_status = valid, v_label = Gecerli,
          v_color = ''text-green-500 bg-green-900/20'', v_days = diffDays\<rparr>)"
    using assms(1)
    by (simp add: calculateValidity_def Let_def yearsToAdd_table now due_def diffDays_def)
  have "case due of
           None \<Rightarrow> v_days (calculateValidity h dateStr hazardClass type) = None \<and>
                    v_status (calculateValidity h dateStr hazardClass type) = valid
         | Some d \<Rightarrow>
             v_days (calculateValidity h dateStr hazardClass type)
               = Some (daysRemainingSpec d (clock h)) \<and>
             v_status (calculateValidity h dateStr hazardClass type)
               = statusSpec (daysRemainingSpec d (clock h))"
  proof (cases due)
    case None
    then have "diffDays = None" by (simp add: diffDays_def js_minus_def ceilDays_def)
    then show ?thesis using None by (simp add: cv js_less_def)
  next
    case (Some d)
    then have "diffDays = Some (daysRemainingSpec d (clock h))"
      by (simp add: diffDays_def ceilDays_spec)
    then show ?thesis using Some by (simp add: cv js_less_def statusSpec_def)
  qed
  then show ?thesis by (simp add: Let_def due_def)
qed

section \<open>The examples of the specification\<close>

text \<open>
  The worked examples, with \<open>now\<close> read as midnight UTC of the date given: a training of
  2020-01-15 in the highly hazardous class is expired on 2021-01-16; a health check of
  2023-06-01 in the low class is valid on 2023-06-02 with 1826 days left; one open action
  due 2024-01-01 is counted as overdue on 2024-06-01, east and west of UTC.
\<close>

lemma specification_examples:
  "Date_parse ''2021-01-16'' = Some 1610755200000"
  "v_status (calculateValidity \<lparr>clock = 1610755200000, localTZA = 10800000\<rparr>
      ''2020-01-15'' Cok_Tehlikeli training) = expired"
  "Date_parse ''2023-06-02'' = Some 1685664000000"
  "calculateValidity \<lparr>clock = 1685664000000, localTZA = 10800000\<rparr>
      ''2023-06-01'' Az_Tehlikeli health =
     \<lparr>v_status = valid, v_label = Gecerli, v_color = ''text-green-500 bg-green-900/20'',
      v_days = Some 1826\<rparr>"
  "Date_parse ''2024-06-01'' = Some 1717200000000"
  "overdueActionsCount \<lparr>clock = 1717200000000, localTZA = 10800000\<rparr>
     [\<lparr>risk_id = ''r'', location = ''Ek Bina'', department = JStr ''Genel'',
       specific_area = JStr [], probability = JNum (Fin 1), frequency = JNum (Fin 1),
       severity = JNum (Fin 1), risk_score = Fin 1,
       actions = [\<lparr>action_id = ''a'', description = JStr ''x'', dueDate = ''2024-01-01'',
                   isCompleted = False, responsibleId = None\<rparr>],
       status = Acik\<rparr>] = 1"
  "overdueActionsCount \<lparr>clock = 1717200000000, localTZA = - 18000000\<rparr>
     [\<lparr>risk_id = ''r'', location = ''Ek Bina'', department = JStr ''Genel'',
       specific_area = JStr [], probability = JNum (Fin 1), frequency = JNum (Fin 1),
       severity = JNum (Fin 1), risk_score = Fin 1,
       actions = [\<lparr>action_id = ''a'', description = JStr ''x'', dueDate = ''2024-01-01'',
                   isCompleted = False, responsibleId = None\<rparr>],
       status = Acik\<rparr>] = 1"
  by code_simp+

section \<open>Hosts with a fixed offset at or east of UTC\<close>

text \<open>
  The lemmas of this section are about the hosts of this model, which keep one zone offset
  (no daylight-saving or other changes of the offset), and about date strings of the form
  \<open>YYYY-MM-DD\<close>, the only form \<open>Date_parse\<close> reads here. Their hypotheses are: the
  offset is at least 0 and less than 24 hours, and the clock is within the range of time
  values. Under these, midnight UTC of a date lies on that same local date, and for a due
  date of that form the overdue test of the source compares the clock with 23:59:59.999
  local time of the day the string names (a day beyond the month's length, as in
  \<open>2024-02-30\<close>, is counted on into the next month, in \<open>endOfDayLocal\<close> as in the
  source). Nothing is said here about hosts whose offset changes or about strings of
  another form.
\<close>

lemma isOverdue_at_or_east_of_UTC:
  assumes p: "parseYMD s = Some ymd"
    and tz: "0 \<le> localTZA h" "localTZA h < msPerDay"
    and c: "\<bar>clock h\<bar> \<le> maxTime"
  shows "isOverdue h s \<longleftrightarrow> endOfDayLocal h ymd < clock h"
proof -
  obtain y m d where ymd: "ymd = (y, m, d)" by (cases ymd) auto
  define D where "D = MakeDay y (m - 1) d"
  note b = parseYMD_bounds [OF p [unfolded ymd]]
  have Db: "- 720000 \<le> D" "D \<le> 3000000"
    unfolding D_def using b by (intro MakeDay_bounds; simp)+
  have ne: "s \<noteq> []" using p by (auto simp: parseYMD_def split: if_splits)
  have dp: "Date_parse s = Some (MakeDate D 0)"
    using Date_parse_value [OF p [unfolded ymd]] by (simp add: D_def)
  have now: "Date_now h = Some (clock h)" using c by (simp add: Date_now_def TimeClip_def)
  have day: "Day (LocalTime h (MakeDate D 0)) = D"
    using tz by (simp add: LocalTime_def MakeDate_def Day_def)
  have e: "UTC h (MakeDate D (MakeTime 23 59 59 999))
             = MakeDate D (MakeTime 23 59 59 999 - localTZA h)"
    by (simp add: UTC_def MakeDate_def)
  have "TimeClip (MakeDate D (MakeTime 23 59 59 999 - localTZA h))
          = Some (MakeDate D (MakeTime 23 59 59 999 - localTZA h))"
    using Db tz by (intro TimeClip_MakeDate) (simp_all add: MakeTime_def msPerDay_def)
  then have sh: "Date_setHours h (Some (MakeDate D 0)) 23 59 59 999
                  = Some (UTC h (MakeDate D (MakeTime 23 59 59 999)))"
    by (simp add: Date_setHours_def Let_def day e)
  have "isOverdue h s =
          js_less (Date_setHours h (Some (MakeDate D 0)) 23 59 59 999) (Some (clock h))"
    using ne by (simp add: isOverdue_def dp now Let_def)
  also have "\<dots> = (UTC h (MakeDate D (MakeTime 23 59 59 999)) < clock h)"
    by (simp add: sh js_less_def)
  also have "\<dots> = (endOfDayLocal h ymd < clock h)"
    by (simp add: endOfDayLocal_def ymd D_def)
  finally show ?thesis .
qed

lemma overdue_test_at_or_east_of_UTC:
  assumes tz: "0 \<le> localTZA h" "localTZA h < msPerDay" and c: "\<bar>clock h\<bar> \<le> maxTime"
  shows "(\<not> isCompleted a \<and> isOverdue h (dueDate a)) = overdueSpec h a"
proof (cases "parseYMD (dueDate a)")
  case None
  then have "Date_parse (dueDate a) = None" by (simp add: Date_parse_def)
  then have "\<not> isOverdue h (dueDate a)"
    by (simp add: isOverdue_def Date_setHours_def js_less_def Let_def)
  then show ?thesis using None by (simp add: overdueSpec_def)
next
  case (Some ymd)
  then show ?thesis
    using isOverdue_at_or_east_of_UTC [OF Some tz c] by (simp add: overdueSpec_def)
qed

lemma overdueActionsCount_at_or_east_of_UTC:
  assumes "0 \<le> localTZA h" "localTZA h < msPerDay" "\<bar>clock h\<bar> \<le> maxTime"
  shows "overdueActionsCount h rs =
           sum_list (map (\<lambda>risk. length (filter (overdueSpec h) (actions risk))) rs)"
  by (simp add: overdueActionsCount_sum overdue_test_at_or_east_of_UTC [OF assms])


text \<open>
  Under the same hypotheses, for a string \<open>YYYY-MM-DD\<close> that names a day of the
  calendar, the due date of the source is midnight UTC of the same month and day in the
  year advanced by the table's years (29 February becomes 1 March when the later year is
  not a leap year), and days and status follow from it as the specification says.
\<close>

lemma calculateValidity_at_or_east_of_UTC:
  assumes p: "parseYMD dateStr = Some ymd" and v: "validDate ymd"
    and tz: "0 \<le> localTZA h" "localTZA h < msPerDay"
    and c: "\<bar>clock h\<bar> \<le> maxTime"
  shows "v_days (calculateValidity h dateStr hazardClass type) =
           Some (daysRemainingSpec (dueDateSpec ymd (validityYears hazardClass type)) (clock h))"
    and "v_status (calculateValidity h dateStr hazardClass type) =
           statusSpec (daysRemainingSpec (dueDateSpec ymd (validityYears hazardClass type))
                         (clock h))"
proof -
  obtain y m d where ymd: "ymd = (y, m, d)" by (cases ymd) auto
  define n where "n = validityYears hazardClass type"
  have n: "1 \<le> n" "n \<le> 5" by (cases hazardClass; cases type; simp add: n_def)+
  note b = parseYMD_bounds [OF p [unfolded ymd]]
  have ne: "dateStr \<noteq> []" using p by (auto simp: parseYMD_def split: if_splits)
  have dp: "Date_parse dateStr = Some (MakeDate (MakeDay y (m - 1) d) 0)"
    by (rule Date_parse_value [OF p [unfolded ymd]])
  have lt: "LocalTime h (MakeDate (MakeDay y (m - 1) d) 0)
              = MakeDate (MakeDay y (m - 1) d) (localTZA h)"
    by (simp add: LocalTime_def MakeDate_def)
  note cv = civil_of_valid_date [OF v [unfolded ymd] tz]
  have gy: "Date_getFullYear h (Date_parse dateStr) = Some y"
    by (simp add: dp Date_getFullYear_def lt cv)
  have "- 720000 \<le> MakeDay (y + n) (m - 1) d" "MakeDay (y + n) (m - 1) d \<le> 3000000"
    using b n by (intro MakeDay_bounds; simp)+
  then have tc: "TimeClip (MakeDate (MakeDay (y + n) (m - 1) d) 0)
                   = Some (MakeDate (MakeDay (y + n) (m - 1) d) 0)"
    by (intro TimeClip_MakeDate) (simp_all add: msPerDay_def)
  have u: "UTC h (MakeDate (MakeDay (y + n) (m - 1) d) (localTZA h))
             = MakeDate (MakeDay (y + n) (m - 1) d) 0"
    by (simp add: UTC_def MakeDate_def)
  have due: "Date_setFullYear h (Date_parse dateStr)
               (map_option (\<lambda>y. y + n) (Date_getFullYear h (Date_parse dateStr)))
             = Some (dueDateSpec ymd n)"
    by (simp add: gy) (simp add: dp Date_setFullYear_def Let_def lt cv u tc dueDateSpec_def ymd)
  show "v_days (calculateValidity h dateStr hazardClass type) =
           Some (daysRemainingSpec (dueDateSpec ymd (validityYears hazardClass type)) (clock h))"
    and "v_status (calculateValidity h dateStr hazardClass type) =
           statusSpec (daysRemainingSpec (dueDateSpec ymd (validityYears hazardClass type))
                         (clock h))"
    using calculateValidity_classification [OF ne c, of hazardClass type] due
    by (simp_all add: Let_def n_def)
qed

section \<open>Date strings are read in UTC and moved in local time\<close>

text \<open>
  \<open>new Date(dateStr)\<close> reads a date-only string as midnight UTC, while \<open>setFullYear\<close> and
  \<open>setHours\<close> work on the local date of that instant. At a host west of UTC the local
  date of midnight UTC is the previous day: \<open>isOverdue\<close> compares the clock with the end
  of the day before the due date, and \<open>calculateValidity\<close> advances the year on the day
  before the event date, which around the end of February is not the same day a year on.
\<close>

text \<open>
  C4 at a host five hours west of UTC, on 2024-01-01 00:00 UTC, for a training of
  2023-03-01 in the highly hazardous class (validity 1 year). The event date plus one year
  is 2024-03-01, 60 days ahead, which the specification classifies \<open>valid\<close>. The source
  takes the local date 2023-02-28 19:00, moves it to 2024-02-28 19:00 local time (2024-02-29
  UTC), counts 59 days and answers \<open>warning\<close>. At a host three hours east the same call
  answers \<open>valid\<close>.
\<close>

theorem calculateValidity_west_of_UTC:
  "v_status (calculateValidity \<lparr>clock = 1704067200000, localTZA = - 18000000\<rparr>
      ''2023-03-01'' Cok_Tehlikeli training) = warning \<and>
   v_days (calculateValidity \<lparr>clock = 1704067200000, localTZA = - 18000000\<rparr>
      ''2023-03-01'' Cok_Tehlikeli training) = Some 59 \<and>
   parseYMD ''2023-03-01'' = Some (2023, 3, 1) \<and>
   dueDateSpec (2023, 3, 1) (validityYears Cok_Tehlikeli training) = 1709251200000 \<and>
   daysRemainingSpec 1709251200000 1704067200000 = 60 \<and>
   statusSpec 60 = valid \<and>
   v_status (calculateValidity \<lparr>clock = 1704067200000, localTZA = 10800000\<rparr>
      ''2023-03-01'' Cok_Tehlikeli training) = valid"
proof -
  have a: "daysRemainingSpec 1709251200000 1704067200000 = 60"
    by (simp add: daysRemainingSpec_def msPerDay_def)
  have b: "v_status (calculateValidity \<lparr>clock = 1704067200000, localTZA = - 18000000\<rparr>
      ''2023-03-01'' Cok_Tehlikeli training) = warning \<and>
   v_days (calculateValidity \<lparr>clock = 1704067200000, localTZA = - 18000000\<rparr>
      ''2023-03-01'' Cok_Tehlikeli training) = Some 59 \<and>
   parseYMD ''2023-03-01'' = Some (2023, 3, 1) \<and>
   dueDateSpec (2023, 3, 1) (validityYears Cok_Tehlikeli training) = 1709251200000 \<and>
   statusSpec 60 = valid \<and>
   v_status (calculateValidity \<lparr>clock = 1704067200000, localTZA = 10800000\<rparr>
      ''2023-03-01'' Cok_Tehlikeli training) = valid"
    by code_simp
  show ?thesis using a b by simp
qed


text \<open>
  C7 at the same western host, at local noon of 2024-01-01 (17:00 UTC), for one open
  action due 2024-01-01. The end of the due day, 23:59:59.999 local time, is still ahead,
  so the action is not overdue by the specification. The source takes the end of the
  local day of midnight UTC, which is 2023-12-31, and counts the action as overdue.
\<close>

theorem isOverdue_west_of_UTC:
  "overdueActionsCount \<lparr>clock = 1704128400000, localTZA = - 18000000\<rparr>
     [\<lparr>risk_id = ''sample-2'', location = ''Ek Bina'',
       department = JStr ''Teknik Oda / Sistem Odasi'', specific_area = JStr ''Elektrik Panosu'',
       probability = JNum (Fin 3), frequency = JNum (Fin 3), severity = JNum (Fin 40),
       risk_score = Fin 360,
       actions = [\<lparr>action_id = ''act-3'', description = JStr ''Kablolar izole edilmeli'',
                   dueDate = ''2024-01-01'', isCompleted = False, responsibleId = None\<rparr>],
       status = Acik\<rparr>] = 1 \<and>
   \<not> overdueSpec \<lparr>clock = 1704128400000, localTZA = - 18000000\<rparr>
       \<lparr>action_id = ''act-3'', description = JStr ''Kablolar izole edilmeli'',
        dueDate = ''2024-01-01'', isCompleted = False, responsibleId = None\<rparr> \<and>
   endOfDayLocal \<lparr>clock = 1704128400000, localTZA = - 18000000\<rparr> (2024, 1, 1)
     = 1704171599999 \<and>
   Date_setHours \<lparr>clock = 1704128400000, localTZA = - 18000000\<rparr>
     (Date_parse ''2024-01-01'') 23 59 59 999 = Some 1704085199999"
  by code_simp

end
